theory Spec2Isabelle
  imports Main "HOL-Library.AList" "HOL-Library.Sublist"
begin

text \<open>
  A model of \<^verbatim>\<open>bot.py\<close>, the registration and approval bot: its callbacks as functions
  on an explicit state, and the application that \<^verbatim>\<open>main()\<close> builds as a function that
  processes one update. The application is built without concurrent updates, so the
  updates are processed one after the other and a callback runs to its end before the
  next update is looked at. An update is a new message or a button press; edited
  messages and channel posts are not modelled. Every call to the Bot API may raise; which
  calls do is given by an environment.
\<close>

section \<open>Python built-ins used by bot.py\<close>

text \<open>
  \<^verbatim>\<open>s.split(c)\<close> for a one-character separator: every occurrence of the separator
  ends a part, so the result is never empty and a part may be the empty string.
\<close>

fun split_on :: "char \<Rightarrow> string \<Rightarrow> string list" where
  "split_on c [] = [[]]"
| "split_on c (x # xs) =
     (if x = c then [] # split_on c xs
      else (case split_on c xs of [] \<Rightarrow> [[x]] | p # ps \<Rightarrow> (x # p) # ps))"

datatype exn = TelegramError | ValueError | IndexError | KeyError | AttributeError

text \<open>\<^verbatim>\<open>query.data.split('_')[1]\<close>: the second part, IndexError when there is none.\<close>

definition second_part :: "string \<Rightarrow> exn + string" where
  "second_part d = (case split_on CHR ''_'' d of _ # p # _ \<Rightarrow> Inr p | _ \<Rightarrow> Inl IndexError)"

text \<open>
  The white space that \<^verbatim>\<open>s.strip()\<close> removes and \<^verbatim>\<open>int()\<close> skips. A character
  stands for a code point below 256; there the white space is tab, line feed, vertical
  tab, form feed, carriage return, the four separators 0x1C to 0x1F, the blank, the
  next-line control 0x85 and the no-break space 0xA0. Text with code points from 256 on
  is outside the model.
\<close>

definition is_space :: "char \<Rightarrow> bool" where
  "is_space c = (c \<in> set [CHR 0x09, CHR 0x0A, CHR 0x0B, CHR 0x0C, CHR 0x0D,
                            CHR 0x1C, CHR 0x1D, CHR 0x1E, CHR 0x1F, CHR 0x20,
                            CHR 0x85, CHR 0xA0])"

definition strip :: "string \<Rightarrow> string" where
  "strip s = rev (dropWhile is_space (rev (dropWhile is_space s)))"

definition digit_val :: "char \<Rightarrow> nat option" where
  "digit_val c =
     map_of [(CHR ''0'', 0), (CHR ''1'', 1), (CHR ''2'', 2), (CHR ''3'', 3), (CHR ''4'', 4),
             (CHR ''5'', 5), (CHR ''6'', 6), (CHR ''7'', 7), (CHR ''8'', 8), (CHR ''9'', 9)] c"

fun digits_val :: "nat \<Rightarrow> string \<Rightarrow> nat option" where
  "digits_val acc [] = Some acc"
| "digits_val acc (c # cs) =
     (case digit_val c of None \<Rightarrow> None | Some d \<Rightarrow> digits_val (10 * acc + d) cs)"

text \<open>
  \<^verbatim>\<open>int(s)\<close> on a string without underscores (it is only applied to a part of a
  split at underscores): optional white space around, an optional sign, at least one
  decimal digit. \<open>None\<close> is the ValueError. Digits outside ASCII are not covered.
\<close>

definition py_int :: "string \<Rightarrow> int option" where
  "py_int s =
     (case strip s of
        [] \<Rightarrow> None
      | c # cs \<Rightarrow>
          if c = CHR ''-'' then (if cs = [] then None else map_option (\<lambda>n. - int n) (digits_val 0 cs))
          else if c = CHR ''+'' then (if cs = [] then None else map_option int (digits_val 0 cs))
          else map_option int (digits_val 0 (c # cs)))"

text \<open>\<^verbatim>\<open>str(n)\<close>, as the f-strings format an integer.\<close>

fun str_nat :: "nat \<Rightarrow> string" where
  "str_nat n = (if n < 10 then [''0123456789'' ! n] else str_nat (n div 10) @ [''0123456789'' ! (n mod 10)])"

declare str_nat.simps [simp del]

definition str_int :: "int \<Rightarrow> string" where
  "str_int i = (if i < 0 then CHR ''-'' # str_nat (nat (- i)) else str_nat (nat i))"

text \<open>\<^verbatim>\<open>s.replace(old, '')\<close>: every occurrence of \<open>old\<close>, left to right, is removed.\<close>

fun remove_all :: "string \<Rightarrow> string \<Rightarrow> string" where
  "remove_all old [] = []"
| "remove_all old (x # xs) =
     (if old \<noteq> [] \<and> prefix old (x # xs) then remove_all old (drop (length old) (x # xs))
      else x # remove_all old xs)"

section \<open>The data of the bot\<close>

text \<open>
  The values stored under \<^verbatim>\<open>bot_data['user_statuses']\<close>. The source reads the
  table with \<^verbatim>\<open>.get(user_id, 'none')\<close>: a user without an entry has the status
  \<^verbatim>\<open>'none'\<close>, which is \<open>None\<close> of the lookup here.
\<close>

datatype status = Pending | Approved | Rejected

text \<open>
  A value of a profile key is what \<^verbatim>\<open>context.user_data.get(key)\<close> gave when the
  screenshot came in: \<open>None\<close> when the key was not set.
\<close>

record user_info =
  full_name :: "string option"
  semester :: "string option"
  stream :: "string option"
  gender :: "string option"
  payment_method :: "string option"
  username :: "string option"
  first_name :: string
  info_user_id :: int

text \<open>
  An entry of \<^verbatim>\<open>bot_data['pending_reviews']\<close>. Its profile keys repeat the values
  of its \<^verbatim>\<open>'user_info'\<close>, so they are read through \<open>info\<close>.
\<close>

record pending_info =
  info :: user_info
  payment_id :: string
  screenshot_file_id :: string
  timestamp :: nat

record comment_info =
  asker_id :: int
  asker_name :: "string option"
  asker_username :: "string option"
  asker_semester :: "string option"
  comment :: "string option"
  asked_at :: nat

text \<open>
  \<^verbatim>\<open>context.bot_data\<close>: four dictionaries, in insertion order (the source iterates
  over them and takes their length). \<open>AList.update\<close> is Python's item assignment: an
  existing key keeps its place, a new key goes last.
\<close>

record bot_data =
  user_statuses :: "(int \<times> status) list"
  user_data :: "(int \<times> user_info) list"
  pending_reviews :: "(int \<times> pending_info) list"
  pending_comments :: "(string \<times> comment_info) list"

text \<open>\<^verbatim>\<open>context.user_data\<close> of one user: a key that is not set is \<open>None\<close>.\<close>

record session =
  registration_in_progress :: "bool option"
  s_full_name :: "string option"
  s_semester :: "string option"
  s_stream :: "string option"
  s_gender :: "string option"
  s_payment_method :: "string option"
  s_payment_id :: "string option"
  reply_comment_id :: "string option"
  reply_user_id :: "int option"
  reply_user_name :: "string option option"
  announcement_semester :: "string option"

definition empty_session :: session where
  "empty_session =
     \<lparr>registration_in_progress = None, s_full_name = None, s_semester = None, s_stream = None,
      s_gender = None, s_payment_method = None, s_payment_id = None, reply_comment_id = None,
      reply_user_id = None, reply_user_name = None, announcement_semester = None\<rparr>"

text \<open>The conversation states, \<^verbatim>\<open>range(10)\<close> in the source.\<close>

datatype conv_state =
  GET_FULL_NAME | GET_SEMESTER | GET_STREAM | GET_GENDER | GET_PAYMENT_METHOD
| AWAITING_SCREENSHOT | ANNOUNCEMENT_SEMESTER | ANNOUNCEMENT_CONTENT | ASK_COMMENT
| REPLY_TO_COMMENT

text \<open>
  What a callback returns: a state, \<^verbatim>\<open>ConversationHandler.END\<close>, or nothing (the
  handlers declared \<^verbatim>\<open>-> None\<close>).
\<close>

datatype result = Goto conv_state | End | NoValue

record config =
  admin_ids :: "int list"
  log_channel_id :: "int option"
  main_channel_id :: "int option"
  contact_username :: "string option"
  contact_phone :: "string option"

text \<open>\<^verbatim>\<open>if LOG_CHANNEL_ID:\<close> is false for \<open>None\<close> and for 0.\<close>

definition truthy_id :: "int option \<Rightarrow> bool" where
  "truthy_id x = (case x of None \<Rightarrow> False | Some i \<Rightarrow> i \<noteq> 0)"

section \<open>Updates and outbound calls\<close>

record tg_user =
  uid :: int
  u_first_name :: string
  u_username :: "string option"
  u_full_name :: string

record chat_invite_link =
  link_url :: string
  member_limit :: "nat option"

text \<open>
  The fields of a message the handlers read. \<open>bot_command\<close> is the command a text
  starts with (its \<^verbatim>\<open>bot_command\<close> entity at offset 0, lower case, without the
  slash), \<open>photo\<close> the file ids of the sizes of a photo (empty: no photo).
\<close>

record message =
  message_id :: int
  date :: nat
  msg_text :: "string option"
  bot_command :: "string option"
  photo :: "string list"
  caption :: "string option"
  new_chat_members :: "tg_user list"

text \<open>
  \<^verbatim>\<open>getattr(message, 'invite_link', None)\<close>: the class \<^verbatim>\<open>telegram.Message\<close> has no
  attribute of that name (the link of a join is part of a chat-member update, which the
  application has no handler for), so the value is the default for every message.
\<close>

definition getattr_invite_link :: "message \<Rightarrow> chat_invite_link option" where
  "getattr_invite_link m = None"

text \<open>
  An update is a new message (\<open>callback_data = None\<close>) or a button press
  (\<open>callback_data = Some d\<close>, and \<open>msg\<close> is the message the button hangs on).
\<close>

record update =
  chat :: int
  user :: tg_user
  msg :: message
  callback_data :: "string option"


text \<open>
  The bodies of the messages the bot sends. A fixed text is \<open>Plain\<close> with its first
  line; a text built by an f-string has a constructor of its own, with the values it
  interpolates. Defaults that only format a value (\<^verbatim>\<open>'N/A'\<close>,
  \<^verbatim>\<open>'Not specified'\<close>) are part of the body and not written out.
\<close>

datatype body =
  Plain string
| BotError exn
| AdminPanel string
| WelcomeBack string "string option" "string option"
| PaymentUnderReview string
| Welcome string
| HelpSupport "string option" "string option"
| RegistrationWelcome string
| Statistics nat nat nat nat nat "(string option \<times> nat) list"
| ClearedPending nat
| PendingQuestion comment_info
| SelectSemester string
| SelectedSemester string
| SelectedStream string
| SelectedGender string
| RegistrationSummary string string string string string string "string \<times> string"
| NewPaymentRequest pending_info
| ThankYouSubmission string
| UserApprovedLog pending_info int tg_user nat
| UserRejectedLog pending_info int tg_user nat
| NewQuestion comment_info string
| ReplyPrompt "string option" "string option"
| ReplyFromTutorial "string option" "string option"
| AnnouncementFor string
| Announcement string
| AnnouncementSummary string nat nat
| UnauthorizedJoin tg_user chat_invite_link

text \<open>Keyboards. The pictographs in front of some button labels are left out.\<close>

datatype button = CallbackButton string string | UrlButton string string

datatype markup =
  NoMarkup | InlineKeyboard "button list list" | ReplyKeyboard "string list list"
| ReplyKeyboardRemove

definition admin_menu :: "string list list" where
  "admin_menu = [[''Send Announcement'', ''View Statistics''], [''Clear Pending'', ''View Questions'']]"

definition user_menu :: "string list list" where
  "user_menu = [[''Ask Question'', ''Help & Support'']]"

text \<open>
  The calls to the Bot API. \<open>EditMessageText\<close>, \<open>DeleteMessage\<close> and \<open>ReplyText\<close>
  are the shortcuts of a query and of a message, with the chat (and message) they act on.
\<close>

datatype call =
  AnswerCallbackQuery "body option"
| EditMessageText int int body markup
| DeleteMessage int int
| ReplyText int body markup
| SendMessage int body markup
| SendPhoto int string body markup
| CreateChatInviteLink "int option" nat
| BanChatMember int int
| UnbanChatMember int int

text \<open>
  The world outside: whether the \<open>n\<close>-th call of the run goes through or raises,
  and the invite link the platform mints.
\<close>

record env =
  delivers :: "nat \<Rightarrow> call \<Rightarrow> bool"
  minted_link :: "nat \<Rightarrow> string"

text \<open>
  The state of the application: \<^verbatim>\<open>bot_data\<close>, the \<^verbatim>\<open>user_data\<close> of every user,
  the state table of each of the four ConversationHandlers (the key is chat id and
  user id), and the calls made so far, each with its outcome.
\<close>

record world =
  bot_data :: bot_data
  sessions :: "int \<Rightarrow> session"
  registration_conv :: "int \<times> int \<Rightarrow> conv_state option"
  ask_comment_conv :: "int \<times> int \<Rightarrow> conv_state option"
  reply_comment_conv :: "int \<times> int \<Rightarrow> conv_state option"
  announcement_conv :: "int \<times> int \<Rightarrow> conv_state option"
  outbox :: "(call \<times> bool) list"

section \<open>Calls, exceptions and \<^verbatim>\<open>try\<close>\<close>

definition api :: "env \<Rightarrow> call \<Rightarrow> world \<Rightarrow> bool \<times> world" where
  "api e c w =
     (let ok = delivers e (length (outbox w)) c
      in (ok, outbox_update (\<lambda>calls. calls @ [(c, ok)]) w))"

text \<open>An awaited call outside any \<^verbatim>\<open>try\<close>: when it raises, the callback ends there.\<close>

definition must ::
  "env \<Rightarrow> call \<Rightarrow> (world \<Rightarrow> (exn + 'a) \<times> world) \<Rightarrow> world \<Rightarrow> (exn + 'a) \<times> world" where
  "must e c k w = (case api e c w of (ok, w') \<Rightarrow> if ok then k w' else (Inl TelegramError, w'))"

text \<open>A call alone in a \<^verbatim>\<open>try\<close> whose \<^verbatim>\<open>except\<close> only logs.\<close>

definition attempt :: "env \<Rightarrow> call \<Rightarrow> world \<Rightarrow> world" where
  "attempt e c w = snd (api e c w)"

definition returns :: "'a \<Rightarrow> world \<Rightarrow> (exn + 'a) \<times> world" where
  "returns r w = (Inr r, w)"

text \<open>
  \<^verbatim>\<open>query = update.callback_query\<close>, then the use of the query and of its data: an
  AttributeError when the update is not a button press.
\<close>

definition with_query ::
  "update \<Rightarrow> (string \<Rightarrow> world \<Rightarrow> (exn + 'a) \<times> world) \<Rightarrow> world \<Rightarrow> (exn + 'a) \<times> world" where
  "with_query u k w = (case callback_data u of None \<Rightarrow> (Inl AttributeError, w) | Some d \<Rightarrow> k d w)"

definition with_user_data :: "int \<Rightarrow> (session \<Rightarrow> session) \<Rightarrow> world \<Rightarrow> world" where
  "with_user_data i f w = sessions_update (\<lambda>s. s(i := f (s i))) w"

text \<open>\<^verbatim>\<open>context.user_data.clear()\<close>\<close>

definition clear_user_data :: "update \<Rightarrow> world \<Rightarrow> world" where
  "clear_user_data u w = with_user_data (uid (user u)) (\<lambda>_. empty_session) w"

definition status_of :: "world \<Rightarrow> int \<Rightarrow> status option" where
  "status_of w i = map_of (user_statuses (bot_data w)) i"

definition edit_message_text :: "update \<Rightarrow> body \<Rightarrow> markup \<Rightarrow> call" where
  "edit_message_text u t k = EditMessageText (chat u) (message_id (msg u)) t k"

definition reply_text :: "update \<Rightarrow> body \<Rightarrow> markup \<Rightarrow> call" where
  "reply_text u t k = ReplyText (chat u) t k"

definition cancel_button :: "string \<Rightarrow> button list" where
  "cancel_button d = [CallbackButton ''Cancel'' d]"


section \<open>The handlers\<close>

type_synonym callback = "world \<Rightarrow> (exn + result) \<times> world"

subsection \<open>Welcome and start\<close>

definition start :: "config \<Rightarrow> env \<Rightarrow> update \<Rightarrow> callback" where
  "start cfg e u w =
     (let usr = user u; user_status = status_of w (uid usr) in
      if uid usr \<in> set (admin_ids cfg) then
        must e (reply_text u (AdminPanel (u_first_name usr)) (ReplyKeyboard admin_menu))
          (returns End) w
      else if user_status = Some Approved then
        (let profile = map_of (user_data (bot_data w)) (uid usr) in
         must e (reply_text u
                   (WelcomeBack (u_first_name usr) (Option.bind profile semester)
                      (Option.bind profile stream))
                   (ReplyKeyboard user_menu))
           (returns End) w)
      else if user_status = Some Pending then
        must e (reply_text u (PaymentUnderReview (u_first_name usr)) ReplyKeyboardRemove)
          (returns End) w
      else
        must e (reply_text u (Welcome (u_first_name usr))
                  (InlineKeyboard [[CallbackButton ''Get Started'' ''get_started'']]))
          (returns End) w)"

definition handle_get_started_callback :: "env \<Rightarrow> update \<Rightarrow> callback" where
  "handle_get_started_callback e u =
     with_query u (\<lambda>d.
     must e (AnswerCallbackQuery None) (\<lambda>w.
       let usr = user u; user_status = status_of w (uid usr) in
       if user_status = Some Approved then
         must e (edit_message_text u (Plain ''You are already an approved member!'') NoMarkup)
        (must e (reply_text u (Plain ''Choose an option below:'') (ReplyKeyboard user_menu))
        (returns End)) w
       else if user_status = Some Pending then
         must e (edit_message_text u
                   (Plain ''Your payment is under review. Please wait for approval.'') NoMarkup)
           (returns End) w
       else
         must e (edit_message_text u (RegistrationWelcome (u_first_name usr)) NoMarkup)
           (\<lambda>w. (Inr (Goto GET_FULL_NAME),
                  with_user_data (uid usr) (registration_in_progress_update (\<lambda>_. Some True)) w))
           w))"

subsection \<open>Menu buttons\<close>

definition ask_question_start :: "env \<Rightarrow> update \<Rightarrow> callback" where
  "ask_question_start e u =
     must e (reply_text u (Plain ''Ask a Question'')
               (InlineKeyboard [cancel_button ''cancel_question'']))
       (returns (Goto ASK_COMMENT))"

definition show_help_support :: "config \<Rightarrow> env \<Rightarrow> update \<Rightarrow> callback" where
  "show_help_support cfg e u =
     must e (reply_text u (HelpSupport (contact_username cfg) (contact_phone cfg))
               (ReplyKeyboard user_menu))
       (returns NoValue)"

definition announcement_start :: "env \<Rightarrow> update \<Rightarrow> callback" where
  "announcement_start e u =
     must e (reply_text u (Plain ''Send Announcement'')
               (InlineKeyboard
                  [[CallbackButton ''First Semester'' ''announce_First Semester''],
                   [CallbackButton ''Second Semester'' ''announce_Second Semester''],
                   [CallbackButton ''All Students'' ''announce_all''],
                   cancel_button ''cancel_announcement'']))
       (returns (Goto ANNOUNCEMENT_SEMESTER))"

text \<open>
  \<^verbatim>\<open>semester_counts\<close> of \<^verbatim>\<open>view_stats\<close>: the approved users of
  \<^verbatim>\<open>user_data\<close>, counted by semester.
\<close>

definition semester_counts :: "bot_data \<Rightarrow> (string option \<times> nat) list" where
  "semester_counts b =
     foldl (\<lambda>counts (i, d).
              if map_of (user_statuses b) i = Some Approved then
                AList.update (semester d)
                  (case map_of counts (semester d) of None \<Rightarrow> 1 | Some n \<Rightarrow> n + 1) counts
              else counts)
       [] (user_data b)"

definition view_stats :: "env \<Rightarrow> update \<Rightarrow> callback" where
  "view_stats e u w =
     (let b = bot_data w;
          total_users = length (user_statuses b);
          approved_users = length (filter (\<lambda>(i, st). st = Approved) (user_statuses b));
          pending_users = length (filter (\<lambda>(i, st). st = Pending) (user_statuses b))
      in must e (reply_text u
                   (Statistics total_users approved_users pending_users
                      (length (pending_reviews b)) (length (pending_comments b))
                      (semester_counts b))
                   (ReplyKeyboard admin_menu))
           (returns NoValue) w)"

definition clear_pending_requests :: "env \<Rightarrow> update \<Rightarrow> callback" where
  "clear_pending_requests e u w =
     (let pending_count = length (pending_reviews (bot_data w));
          w1 = bot_data_update (pending_reviews_update (\<lambda>_. [])) w
      in must e (reply_text u (ClearedPending pending_count) (ReplyKeyboard admin_menu))
           (returns NoValue) w1)"

fun show_questions :: "env \<Rightarrow> update \<Rightarrow> (string \<times> comment_info) list \<Rightarrow> callback" where
  "show_questions e u [] w = (Inr NoValue, w)"
| "show_questions e u ((comment_id, c) # rest) w =
     (case api e (reply_text u (PendingQuestion c)
                    (InlineKeyboard [[CallbackButton ''Reply'' (''reply_'' @ comment_id)]])) w of
        (ok, w') \<Rightarrow> if ok then show_questions e u rest w' else (Inl TelegramError, w'))"

definition view_pending_questions :: "env \<Rightarrow> update \<Rightarrow> callback" where
  "view_pending_questions e u w =
     (if pending_comments (bot_data w) = [] then
        must e (reply_text u (Plain ''No pending questions.'') (ReplyKeyboard admin_menu))
          (returns NoValue) w
      else show_questions e u (take 5 (pending_comments (bot_data w))) w)"

text \<open>A callback awaited for its effect only: what it returns is dropped.\<close>

definition discard :: "callback \<Rightarrow> callback" where
  "discard h w = (case h w of (Inl x, w') \<Rightarrow> (Inl x, w') | (Inr _, w') \<Rightarrow> (Inr NoValue, w'))"

definition handle_menu_buttons :: "config \<Rightarrow> env \<Rightarrow> update \<Rightarrow> callback" where
  "handle_menu_buttons cfg e u w =
     (let usr = user u; t = msg_text (msg u); user_status = status_of w (uid usr) in
      if t = Some ''Ask Question'' then
        (if user_status = Some Approved then discard (ask_question_start e u) w
         else must e (reply_text u
                        (Plain ''This feature is only available for approved members.'')
                        NoMarkup)
                (returns NoValue) w)
      else if t = Some ''Help & Support'' then show_help_support cfg e u w
      else if uid usr \<in> set (admin_ids cfg) then
        (if t = Some ''Send Announcement'' then discard (announcement_start e u) w
         else if t = Some ''View Statistics'' then view_stats e u w
         else if t = Some ''Clear Pending'' then clear_pending_requests e u w
         else if t = Some ''View Questions'' then view_pending_questions e u w
         else returns NoValue w)
      else returns NoValue w)"

subsection \<open>The registration conversation\<close>

definition get_full_name :: "env \<Rightarrow> update \<Rightarrow> callback" where
  "get_full_name e u w =
     (case msg_text (msg u) of
        None \<Rightarrow> (Inl AttributeError, w)
      | Some t \<Rightarrow>
          (let user_full_name = strip t in
           if user_full_name = [] then
             must e (reply_text u (Plain ''Please enter a valid name.'') NoMarkup)
               (returns (Goto GET_FULL_NAME)) w
           else
             must e (reply_text u (SelectSemester user_full_name)
                       (InlineKeyboard
                          [[CallbackButton ''First Semester'' ''semester_First Semester''],
                           [CallbackButton ''Second Semester'' ''semester_Second Semester''],
                           cancel_button ''cancel_registration'']))
               (returns (Goto GET_SEMESTER))
               (with_user_data (uid (user u)) (s_full_name_update (\<lambda>_. Some user_full_name)) w)))"

text \<open>The stream buttons \<^verbatim>\<open>get_semester\<close> builds for a semester: label and callback data.\<close>

definition stream_keyboard :: "string \<Rightarrow> button list list" where
  "stream_keyboard sem =
     (if sem = ''First Semester'' then
        [[CallbackButton ''Social Science'' ''stream_Social Science''],
         [CallbackButton ''Natural Science'' ''stream_Natural Science'']]
      else if sem = ''Second Semester'' then
        [[CallbackButton ''Pre-Engineering'' ''stream_Pre-Engineering''],
         [CallbackButton ''Other Natural Science'' ''stream_Other Natural Science''],
         [CallbackButton ''Social Science'' ''stream_Social Science''],
         [CallbackButton ''Health Science'' ''stream_Health'']]
      else [])"

definition get_semester :: "env \<Rightarrow> update \<Rightarrow> callback" where
  "get_semester e u =
     with_query u (\<lambda>d.
     must e (AnswerCallbackQuery None) (\<lambda>w.
       case second_part d of
         Inl x \<Rightarrow> (Inl x, w)
       | Inr sem \<Rightarrow>
           must e (edit_message_text u (SelectedSemester sem)
                     (InlineKeyboard (stream_keyboard sem @ [cancel_button ''cancel_registration''])))
             (returns (Goto GET_STREAM))
             (with_user_data (uid (user u)) (s_semester_update (\<lambda>_. Some sem)) w)))"

definition get_stream :: "env \<Rightarrow> update \<Rightarrow> callback" where
  "get_stream e u =
     with_query u (\<lambda>d.
     must e (AnswerCallbackQuery None) (\<lambda>w.
       case second_part d of
         Inl x \<Rightarrow> (Inl x, w)
       | Inr strm \<Rightarrow>
           must e (edit_message_text u (SelectedStream strm)
                     (InlineKeyboard
                        [[CallbackButton ''Male'' ''gender_Male''],
                         [CallbackButton ''Female'' ''gender_Female''],
                         cancel_button ''cancel_registration'']))
             (returns (Goto GET_GENDER))
             (with_user_data (uid (user u)) (s_stream_update (\<lambda>_. Some strm)) w)))"

definition get_gender :: "env \<Rightarrow> update \<Rightarrow> callback" where
  "get_gender e u =
     with_query u (\<lambda>d.
     must e (AnswerCallbackQuery None) (\<lambda>w.
       case second_part d of
         Inl x \<Rightarrow> (Inl x, w)
       | Inr g \<Rightarrow>
           must e (edit_message_text u (SelectedGender g)
                     (InlineKeyboard
                        [[CallbackButton ''Telebirr'' ''method_Telebirr''],
                         [CallbackButton ''CBE'' ''method_CBE''],
                         [CallbackButton ''mPesa'' ''method_mPesa''],
                         cancel_button ''cancel_registration'']))
             (returns (Goto GET_PAYMENT_METHOD))
             (with_user_data (uid (user u)) (s_gender_update (\<lambda>_. Some g)) w)))"

definition payment_instructions :: "string \<Rightarrow> string \<times> string" where
  "payment_instructions method =
     (if method = ''Telebirr'' then (''Please transfer 120 birr to:'', ''0927429565 (ABDULMEJID SEHAB)'')
      else if method = ''CBE'' then (''Please transfer 120 birr to:'', ''1000417007192 (ABDULMEJID SEHAB)'')
      else if method = ''mPesa'' then (''Please transfer 120 birr to:'', ''0927429565 (ABDULMEJID SEHAB)'')
      else ([], []))"

text \<open>
  The summary reads \<^verbatim>\<open>context.user_data['full_name']\<close> and three more keys by
  subscript: a KeyError when one is not set.
\<close>

definition get_payment_method :: "env \<Rightarrow> update \<Rightarrow> callback" where
  "get_payment_method e u =
     with_query u (\<lambda>d.
     must e (AnswerCallbackQuery None) (\<lambda>w.
       case second_part d of
         Inl x \<Rightarrow> (Inl x, w)
       | Inr method \<Rightarrow>
           (let usr = uid (user u);
                pid = ''ABJ'' @ str_int usr @ str_int (message_id (msg u));
                w1 = with_user_data usr
                       (\<lambda>s. s\<lparr>s_payment_method := Some method, s_payment_id := Some pid\<rparr>) w;
                s = sessions w1 usr
            in case (s_full_name s, s_semester s, s_stream s, s_gender s) of
                 (Some n, Some sem, Some strm, Some g) \<Rightarrow>
                   must e (edit_message_text u
                             (RegistrationSummary n sem strm g method pid (payment_instructions method))
                             (InlineKeyboard [cancel_button ''cancel_registration'']))
                     (returns (Goto AWAITING_SCREENSHOT)) w1
               | _ \<Rightarrow> (Inl KeyError, w1))))"

definition approval_buttons :: "int \<Rightarrow> markup" where
  "approval_buttons i =
     InlineKeyboard [[CallbackButton ''APPROVE'' (''approve_'' @ str_int i),
                      CallbackButton ''REJECT'' (''reject_'' @ str_int i)]]"

definition receive_screenshot :: "config \<Rightarrow> env \<Rightarrow> update \<Rightarrow> callback" where
  "receive_screenshot cfg e u w =
     (let usr = user u; m = msg u in
      if photo m = [] then
        must e (reply_text u (Plain ''Please send your payment screenshot as a photo.'') NoMarkup)
          (returns (Goto AWAITING_SCREENSHOT)) w
      else
        (let s = sessions w (uid usr);
             pid = (case s_payment_id s of
                      Some p \<Rightarrow> p
                    | None \<Rightarrow> ''UNKNOWN_'' @ str_int (uid usr) @ ''_'' @ str_int (message_id m));
             w1 = bot_data_update (user_statuses_update (AList.update (uid usr) Pending)) w;
             user_info =
               \<lparr>full_name = s_full_name s, semester = s_semester s, stream = s_stream s,
                gender = s_gender s, payment_method = s_payment_method s,
                username = u_username usr, first_name = u_first_name usr, info_user_id = uid usr\<rparr>;
             w2 = bot_data_update (user_data_update (AList.update (uid usr) user_info)) w1;
             pending_info =
               \<lparr>info = user_info, payment_id = pid, screenshot_file_id = last (photo m),
                timestamp = date m\<rparr>;
             w3 = bot_data_update (pending_reviews_update (AList.update (uid usr) pending_info)) w2;
             w4 = foldl (\<lambda>w admin_id.
                           attempt e (SendPhoto admin_id (last (photo m))
                                        (NewPaymentRequest pending_info)
                                        (approval_buttons (uid usr))) w)
                    w3 (admin_ids cfg)
         in must e (reply_text u (ThankYouSubmission pid) ReplyKeyboardRemove)
              (\<lambda>w. (Inr End, clear_user_data u w)) w4))"


subsection \<open>Approval and rejection by an admin\<close>

text \<open>The log entry of a decision: sent only \<^verbatim>\<open>if LOG_CHANNEL_ID\<close>, in a \<^verbatim>\<open>try\<close>.\<close>

definition log_photo :: "config \<Rightarrow> env \<Rightarrow> string \<Rightarrow> body \<Rightarrow> world \<Rightarrow> world" where
  "log_photo cfg e file_id t w =
     (case log_channel_id cfg of
        None \<Rightarrow> w
      | Some l \<Rightarrow> if l = 0 then w else attempt e (SendPhoto l file_id t NoMarkup) w)"

text \<open>
  The one-time invite link and its delivery share one \<^verbatim>\<open>try\<close>: when the link cannot
  be made, nothing is sent.
\<close>

definition send_invite :: "config \<Rightarrow> env \<Rightarrow> int \<Rightarrow> world \<Rightarrow> world" where
  "send_invite cfg e user_id w =
     (case api e (CreateChatInviteLink (main_channel_id cfg) 1) w of
        (ok, w') \<Rightarrow>
          if ok then
            attempt e (SendMessage user_id (Plain ''PAYMENT APPROVED! WELCOME TO ABJ TUTORIAL!'')
                         (InlineKeyboard
                            [[UrlButton ''Join Main Channel'' (minted_link e (length (outbox w)))]]))
              w'
          else w')"

text \<open>The body of the outer \<^verbatim>\<open>try\<close> of \<^verbatim>\<open>user_approval_handler\<close>.\<close>

definition approval_try :: "config \<Rightarrow> env \<Rightarrow> update \<Rightarrow> string \<Rightarrow> callback" where
  "approval_try cfg e u d w =
     (case split_on CHR ''_'' d of
        [action, user_id_str] \<Rightarrow>
          (case py_int user_id_str of
             None \<Rightarrow> (Inl ValueError, w)
           | Some user_id \<Rightarrow>
               (case map_of (pending_reviews (bot_data w)) user_id of
                  None \<Rightarrow>
                    must e (edit_message_text u (Plain ''Request already processed or not found.'')
                              NoMarkup)
                      (returns NoValue) w
                | Some entry \<Rightarrow>
                    (let w1 = bot_data_update (pending_reviews_update (AList.delete user_id)) w in
                     if action = ''approve'' then
                       (let w2 = bot_data_update (user_statuses_update (AList.update user_id Approved)) w1;
                            w3 = log_photo cfg e (screenshot_file_id entry)
                                   (UserApprovedLog entry user_id (user u) (date (msg u))) w2;
                            w4 = send_invite cfg e user_id w3
                        in must e (DeleteMessage (chat u) (message_id (msg u))) (returns NoValue) w4)
                     else if action = ''reject'' then
                       (let w2 = bot_data_update (user_statuses_update (AList.update user_id Rejected)) w1;
                            w3 = log_photo cfg e (screenshot_file_id entry)
                                   (UserRejectedLog entry user_id (user u) (date (msg u))) w2;
                            w4 = attempt e (SendMessage user_id (Plain ''Payment Review Update'')
                                              NoMarkup) w3
                        in must e (DeleteMessage (chat u) (message_id (msg u))) (returns NoValue) w4)
                     else returns NoValue w1)))
      | _ \<Rightarrow> (Inl ValueError, w))"

definition user_approval_handler :: "config \<Rightarrow> env \<Rightarrow> update \<Rightarrow> callback" where
  "user_approval_handler cfg e u =
     with_query u (\<lambda>d w.
       if uid (user u) \<notin> set (admin_ids cfg) then
         must e (AnswerCallbackQuery (Some (Plain ''You are not authorized to perform this action.'')))
           (returns NoValue) w
       else
         must e (AnswerCallbackQuery None)
           (\<lambda>w. case approval_try cfg e u d w of
                   (Inl x, w') \<Rightarrow>
                     must e (edit_message_text u
                               (Plain ''Error processing request. Please try again.'') NoMarkup)
                       (returns NoValue) w'
                 | (Inr r, w') \<Rightarrow> (Inr r, w'))
           w)"

subsection \<open>Cancel buttons\<close>

definition cancel_registration_callback :: "env \<Rightarrow> update \<Rightarrow> callback" where
  "cancel_registration_callback e u =
     with_query u (\<lambda>d.
     must e (AnswerCallbackQuery None)
    (must e (edit_message_text u (Plain ''Registration Cancelled'') NoMarkup)
    (\<lambda>w. (Inr End, clear_user_data u w))))"

definition cancel_announcement_callback :: "env \<Rightarrow> update \<Rightarrow> callback" where
  "cancel_announcement_callback e u =
     with_query u (\<lambda>d.
     must e (AnswerCallbackQuery None)
    (must e (edit_message_text u (Plain ''Announcement Cancelled'') (ReplyKeyboard admin_menu))
    (\<lambda>w. (Inr End, clear_user_data u w))))"

definition cancel_question_callback :: "env \<Rightarrow> update \<Rightarrow> callback" where
  "cancel_question_callback e u =
     with_query u (\<lambda>d.
     must e (AnswerCallbackQuery None)
    (must e (edit_message_text u (Plain ''Question Cancelled'') (ReplyKeyboard user_menu))
    (\<lambda>w. (Inr End, clear_user_data u w))))"

definition cancel_reply_callback :: "env \<Rightarrow> update \<Rightarrow> callback" where
  "cancel_reply_callback e u =
     with_query u (\<lambda>d.
     must e (AnswerCallbackQuery None)
    (must e (edit_message_text u (Plain ''Reply Cancelled'') (ReplyKeyboard admin_menu))
    (\<lambda>w. (Inr End, clear_user_data u w))))"

subsection \<open>Questions and replies\<close>

definition receive_comment :: "config \<Rightarrow> env \<Rightarrow> update \<Rightarrow> callback" where
  "receive_comment cfg e u w =
     (let usr = user u; m = msg u;
          profile = map_of (user_data (bot_data w)) (uid usr);
          comment_id = ''comment_'' @ str_int (uid usr) @ ''_'' @ str_int (message_id m);
          c = \<lparr>asker_id = uid usr,
               asker_name = (case profile of None \<Rightarrow> Some (u_first_name usr) | Some p \<Rightarrow> full_name p),
               asker_username = u_username usr,
               asker_semester = (case profile of None \<Rightarrow> Some ''N/A'' | Some p \<Rightarrow> semester p),
               comment = msg_text m,
               asked_at = date m\<rparr>;
          w1 = bot_data_update (pending_comments_update (AList.update comment_id c)) w;
          w2 = foldl (\<lambda>w admin_id.
                        attempt e (SendMessage admin_id (NewQuestion c comment_id)
                                     (InlineKeyboard
                                        [[CallbackButton ''Reply'' (''reply_'' @ comment_id)]])) w)
                 w1 (admin_ids cfg)
      in must e (reply_text u (Plain ''Question Sent Successfully!'') (ReplyKeyboard user_menu))
           (returns End) w2)"

definition reply_to_comment_start :: "env \<Rightarrow> update \<Rightarrow> callback" where
  "reply_to_comment_start e u =
     with_query u (\<lambda>d.
     must e (AnswerCallbackQuery None) (\<lambda>w.
       let comment_id = remove_all ''reply_'' d in
       case map_of (pending_comments (bot_data w)) comment_id of
         None \<Rightarrow>
           must e (edit_message_text u
                     (Plain ''Comment no longer available or already replied.'') NoMarkup)
             (returns End) w
       | Some c \<Rightarrow>
           must e (edit_message_text u (ReplyPrompt (asker_name c) (comment c))
                     (InlineKeyboard [cancel_button ''cancel_reply'']))
             (returns (Goto REPLY_TO_COMMENT))
             (with_user_data (uid (user u))
                (\<lambda>s. s\<lparr>reply_comment_id := Some comment_id, reply_user_id := Some (asker_id c),
                        reply_user_name := Some (asker_name c)\<rparr>) w)))"

text \<open>
  \<^verbatim>\<open>if not comment_id or not user_id\<close>: a key that is not set, an empty id or the
  user id 0. The confirmation to the admin is inside the \<^verbatim>\<open>try\<close> of the delivery, so
  a failure of either leads to the \<^verbatim>\<open>except\<close> branch.
\<close>

definition send_reply_to_user :: "env \<Rightarrow> update \<Rightarrow> callback" where
  "send_reply_to_user e u w =
     (let s = sessions w (uid (user u));
          finish = (\<lambda>w. (Inr End, clear_user_data u w));
          expired = must e (reply_text u (Plain ''Reply session expired. Please try again.'')
                              (ReplyKeyboard admin_menu)) finish
      in case (reply_comment_id s, reply_user_id s) of
           (Some comment_id, Some target) \<Rightarrow>
             if comment_id = [] \<or> target = 0 then expired w
             else
               (let w1 = bot_data_update (pending_comments_update (AList.delete comment_id)) w in
                case api e (SendMessage target
                              (ReplyFromTutorial (Option.bind (reply_user_name s) (\<lambda>n. n))
                                 (msg_text (msg u)))
                              NoMarkup) w1 of
                  (sent, w2) \<Rightarrow>
                    (case (if sent
                           then api e (reply_text u (Plain ''Reply sent successfully!'')
                                         (ReplyKeyboard admin_menu)) w2
                           else (False, w2)) of
                       (confirmed, w3) \<Rightarrow>
                         if confirmed then finish w3
                         else must e (reply_text u
                                        (Plain ''Failed to send reply. User may have blocked the bot.'')
                                        (ReplyKeyboard admin_menu)) finish w3))
         | _ \<Rightarrow> expired w)"

subsection \<open>Announcements\<close>

definition announcement_semester_cb :: "env \<Rightarrow> update \<Rightarrow> callback" where
  "announcement_semester_cb e u =
     with_query u (\<lambda>d.
     must e (AnswerCallbackQuery None) (\<lambda>w.
       case second_part d of
         Inl x \<Rightarrow> (Inl x, w)
       | Inr sem \<Rightarrow>
           must e (edit_message_text u (AnnouncementFor sem)
                     (InlineKeyboard [cancel_button ''cancel_announcement'']))
             (returns (Goto ANNOUNCEMENT_CONTENT))
             (with_user_data (uid (user u)) (announcement_semester_update (\<lambda>_. Some sem)) w)))"

text \<open>The target users: the approved entries of \<^verbatim>\<open>user_statuses\<close>, in its order.\<close>

definition target_users :: "bot_data \<Rightarrow> string \<Rightarrow> int list" where
  "target_users b sem =
     map fst
       (filter (\<lambda>(i, st). st = Approved \<and>
                  (sem = ''all'' \<or> Option.bind (map_of (user_data b) i) semester = Some sem))
          (user_statuses b))"

text \<open>
  The loop over the targets, with the two counters. A message that has neither a text
  nor a photo makes no call, and the counter of the sent ones still goes up.
\<close>

fun broadcast :: "env \<Rightarrow> message \<Rightarrow> int list \<Rightarrow> nat \<Rightarrow> nat \<Rightarrow> world \<Rightarrow> nat \<times> nat \<times> world" where
  "broadcast e m [] sent_count failed_count w = (sent_count, failed_count, w)"
| "broadcast e m (i # rest) sent_count failed_count w =
     (case msg_text m of
        Some (c # cs) \<Rightarrow>
          (case api e (SendMessage i (Announcement (c # cs)) NoMarkup) w of
             (ok, w') \<Rightarrow>
               if ok then broadcast e m rest (sent_count + 1) failed_count w'
               else broadcast e m rest sent_count (failed_count + 1) w')
      | _ \<Rightarrow>
          if photo m \<noteq> [] then
            (case api e (SendPhoto i (last (photo m))
                           (Announcement (case caption m of None \<Rightarrow> [] | Some t \<Rightarrow> t)) NoMarkup) w of
               (ok, w') \<Rightarrow>
                 if ok then broadcast e m rest (sent_count + 1) failed_count w'
                 else broadcast e m rest sent_count (failed_count + 1) w')
          else broadcast e m rest (sent_count + 1) failed_count w)"

definition announcement_content :: "env \<Rightarrow> update \<Rightarrow> callback" where
  "announcement_content e u w =
     (let sem = (case announcement_semester (sessions w (uid (user u))) of
                   None \<Rightarrow> ''all'' | Some s \<Rightarrow> s)
      in case broadcast e (msg u) (target_users (bot_data w) sem) 0 0 w of
           (sent_count, failed_count, w1) \<Rightarrow>
             must e (reply_text u (AnnouncementSummary sem sent_count failed_count)
                       (ReplyKeyboard admin_menu))
               (\<lambda>w. (Inr End, clear_user_data u w)) w1)"

subsection \<open>The cancel command\<close>

definition cancel :: "config \<Rightarrow> env \<Rightarrow> update \<Rightarrow> callback" where
  "cancel cfg e u w =
     (let usr = user u; user_status = status_of w (uid usr);
          finish = (\<lambda>w. (Inr End, clear_user_data u w))
      in if uid usr \<in> set (admin_ids cfg) then
           must e (reply_text u (Plain ''Operation cancelled.'') (ReplyKeyboard admin_menu)) finish w
         else if user_status = Some Approved then
           must e (reply_text u (Plain ''Operation cancelled.'') (ReplyKeyboard user_menu)) finish w
         else
           must e (reply_text u (Plain ''Operation cancelled. Send /start to begin again.'') NoMarkup)
             finish w)"

subsection \<open>Joins of the main channel\<close>

definition log_note :: "config \<Rightarrow> env \<Rightarrow> body \<Rightarrow> world \<Rightarrow> world" where
  "log_note cfg e t w =
     (case log_channel_id cfg of
        None \<Rightarrow> w
      | Some l \<Rightarrow> if l = 0 then w else attempt e (SendMessage l t NoMarkup) w)"

text \<open>
  What the loop does for one new member: ban and unban share a \<^verbatim>\<open>try\<close> (no unban
  after a ban that failed), the note to the log channel has a \<^verbatim>\<open>try\<close> of its own.
\<close>

definition remove_member ::
  "config \<Rightarrow> env \<Rightarrow> int \<Rightarrow> chat_invite_link option \<Rightarrow> tg_user \<Rightarrow> world \<Rightarrow> world" where
  "remove_member cfg e c l member w =
     (case l of
        None \<Rightarrow> w
      | Some lnk \<Rightarrow>
          if status_of w (uid member) \<noteq> Some Approved then
            (let w1 = (case api e (BanChatMember c (uid member)) w of
                         (ok, w') \<Rightarrow> if ok then attempt e (UnbanChatMember c (uid member)) w' else w')
             in log_note cfg e (UnauthorizedJoin member lnk) w1)
          else w)"

definition handle_new_chat_members :: "config \<Rightarrow> env \<Rightarrow> update \<Rightarrow> callback" where
  "handle_new_chat_members cfg e u w =
     (if Some (chat u) \<noteq> main_channel_id cfg then (Inr NoValue, w)
      else if new_chat_members (msg u) = [] then (Inr NoValue, w)
      else (Inr NoValue,
            foldl (\<lambda>w member. remove_member cfg e (chat u) (getattr_invite_link (msg u)) member w)
              w (new_chat_members (msg u))))"

subsection \<open>The error handler\<close>

definition error_handler :: "config \<Rightarrow> env \<Rightarrow> exn \<Rightarrow> world \<Rightarrow> world" where
  "error_handler cfg e x w =
     foldl (\<lambda>w admin_id. attempt e (SendMessage admin_id (BotError x) NoMarkup) w) w (admin_ids cfg)"


section \<open>The application\<close>

text \<open>
  \<^verbatim>\<open>main()\<close> registers every handler in the same group. For an update, the
  application asks each handler of the group in the order of registration whether it
  takes the update, and runs the first one that does; the others do not see the update.
  A callback that raises leaves the state of its conversation as it was, and the error
  handler runs.
\<close>

subsection \<open>Filters and patterns\<close>

definition filters_ALL :: "update \<Rightarrow> bool" where
  "filters_ALL u = (callback_data u = None)"

definition filters_TEXT :: "update \<Rightarrow> bool" where
  "filters_TEXT u =
     (callback_data u = None \<and> (case msg_text (msg u) of None \<Rightarrow> False | Some t \<Rightarrow> t \<noteq> []))"

definition filters_COMMAND :: "update \<Rightarrow> bool" where
  "filters_COMMAND u = (callback_data u = None \<and> bot_command (msg u) \<noteq> None)"

definition filters_PHOTO :: "update \<Rightarrow> bool" where
  "filters_PHOTO u = (callback_data u = None \<and> photo (msg u) \<noteq> [])"

text \<open>
  \<^verbatim>\<open>filters.Text("Ask Question")\<close> is given a string where the library expects a list
  of strings, and tests \<^verbatim>\<open>message.text in strings\<close>: the text of the message is a
  non-empty part of that string.
\<close>

definition filters_Text :: "string \<Rightarrow> update \<Rightarrow> bool" where
  "filters_Text strings u =
     (callback_data u = None \<and>
      (case msg_text (msg u) of None \<Rightarrow> False | Some t \<Rightarrow> t \<noteq> [] \<and> sublist t strings))"

definition command :: "string \<Rightarrow> update \<Rightarrow> bool" where
  "command c u = (callback_data u = None \<and> bot_command (msg u) = Some c)"

text \<open>A pattern \<^verbatim>\<open>'^p'\<close> on the data of a button press.\<close>

definition pattern_prefix :: "string \<Rightarrow> update \<Rightarrow> bool" where
  "pattern_prefix p u = (case callback_data u of None \<Rightarrow> False | Some d \<Rightarrow> prefix p d)"

text \<open>A pattern \<^verbatim>\<open>'^p$'\<close>: Python's \<^verbatim>\<open>$\<close> also matches before a final line feed.\<close>

definition pattern_exact :: "string \<Rightarrow> update \<Rightarrow> bool" where
  "pattern_exact p u =
     (case callback_data u of None \<Rightarrow> False | Some d \<Rightarrow> d = p \<or> d = p @ [CHR 0x0A])"

definition new_members_of_main :: "config \<Rightarrow> update \<Rightarrow> bool" where
  "new_members_of_main cfg u =
     (callback_data u = None \<and> new_chat_members (msg u) \<noteq> [] \<and> Some (chat u) = main_channel_id cfg)"

subsection \<open>Conversation handlers\<close>

type_synonym handler = "(update \<Rightarrow> bool) \<times> callback"

record conversation =
  entry_points :: "handler list"
  states :: "conv_state \<Rightarrow> handler list"
  fallbacks :: "handler list"

definition find_handler :: "update \<Rightarrow> handler list \<Rightarrow> callback option" where
  "find_handler u hs = map_option snd (List.find (\<lambda>h. fst h u) hs)"

text \<open>
  Whether a conversation takes an update: without a state for the key, the first entry
  point that matches; in a state, the first handler of the state that matches, and the
  first fallback otherwise.
\<close>

definition conv_check :: "conversation \<Rightarrow> conv_state option \<Rightarrow> update \<Rightarrow> callback option" where
  "conv_check c st u =
     (case st of
        None \<Rightarrow> find_handler u (entry_points c)
      | Some s \<Rightarrow>
          (case find_handler u (states c s) of
             Some cb \<Rightarrow> Some cb
           | None \<Rightarrow> find_handler u (fallbacks c)))"

text \<open>
  Running the callback of a conversation: the value it returns is the next state of the
  key, \<^verbatim>\<open>END\<close> removes the key.
\<close>

definition conv_run ::
  "config \<Rightarrow> env \<Rightarrow> (((int \<times> int \<Rightarrow> conv_state option) \<Rightarrow> (int \<times> int \<Rightarrow> conv_state option)) \<Rightarrow> world \<Rightarrow> world)
     \<Rightarrow> int \<times> int \<Rightarrow> callback \<Rightarrow> world \<Rightarrow> world" where
  "conv_run cfg e table_update key cb w =
     (case cb w of
        (Inl x, w') \<Rightarrow> error_handler cfg e x w'
      | (Inr (Goto s), w') \<Rightarrow> table_update (\<lambda>t. t(key := Some s)) w'
      | (Inr End, w') \<Rightarrow> table_update (\<lambda>t. t(key := None)) w'
      | (Inr NoValue, w') \<Rightarrow> w')"

text \<open>Running the callback of a handler outside a conversation.\<close>

definition run_callback :: "config \<Rightarrow> env \<Rightarrow> callback \<Rightarrow> world \<Rightarrow> world" where
  "run_callback cfg e cb w =
     (case cb w of (Inl x, w') \<Rightarrow> error_handler cfg e x w' | (Inr r, w') \<Rightarrow> w')"

definition registration_conv_handler :: "config \<Rightarrow> env \<Rightarrow> update \<Rightarrow> conversation" where
  "registration_conv_handler cfg e u =
     \<lparr>entry_points =
        [(pattern_exact ''get_started'', handle_get_started_callback e u),
         (command ''start'', start cfg e u)],
      states = (\<lambda>s.
        if s = GET_FULL_NAME then
          [(\<lambda>u. filters_TEXT u \<and> \<not> filters_COMMAND u, get_full_name e u)]
        else if s = GET_SEMESTER then [(pattern_prefix ''semester_'', get_semester e u)]
        else if s = GET_STREAM then [(pattern_prefix ''stream_'', get_stream e u)]
        else if s = GET_GENDER then [(pattern_prefix ''gender_'', get_gender e u)]
        else if s = GET_PAYMENT_METHOD then [(pattern_prefix ''method_'', get_payment_method e u)]
        else if s = AWAITING_SCREENSHOT then [(filters_PHOTO, receive_screenshot cfg e u)]
        else []),
      fallbacks =
        [(command ''cancel'', cancel cfg e u),
         (pattern_exact ''cancel_registration'', cancel_registration_callback e u)]\<rparr>"

definition ask_comment_conv_handler :: "config \<Rightarrow> env \<Rightarrow> update \<Rightarrow> conversation" where
  "ask_comment_conv_handler cfg e u =
     \<lparr>entry_points = [(filters_Text ''Ask Question'', ask_question_start e u)],
      states = (\<lambda>s.
        if s = ASK_COMMENT then
          [(\<lambda>u. filters_TEXT u \<and> \<not> filters_COMMAND u, receive_comment cfg e u)]
        else []),
      fallbacks =
        [(command ''cancel'', cancel cfg e u),
         (pattern_exact ''cancel_question'', cancel_question_callback e u)]\<rparr>"

definition reply_comment_conv_handler :: "config \<Rightarrow> env \<Rightarrow> update \<Rightarrow> conversation" where
  "reply_comment_conv_handler cfg e u =
     \<lparr>entry_points = [(pattern_prefix ''reply_'', reply_to_comment_start e u)],
      states = (\<lambda>s.
        if s = REPLY_TO_COMMENT then
          [(\<lambda>u. filters_TEXT u \<and> \<not> filters_COMMAND u, send_reply_to_user e u)]
        else []),
      fallbacks =
        [(command ''cancel'', cancel cfg e u),
         (pattern_exact ''cancel_reply'', cancel_reply_callback e u)]\<rparr>"

definition announcement_conv_handler :: "config \<Rightarrow> env \<Rightarrow> update \<Rightarrow> conversation" where
  "announcement_conv_handler cfg e u =
     \<lparr>entry_points = [(filters_Text ''Send Announcement'', announcement_start e u)],
      states = (\<lambda>s.
        if s = ANNOUNCEMENT_SEMESTER then [(pattern_prefix ''announce_'', announcement_semester_cb e u)]
        else if s = ANNOUNCEMENT_CONTENT then [(filters_ALL, announcement_content e u)]
        else []),
      fallbacks =
        [(command ''cancel'', cancel cfg e u),
         (pattern_exact ''cancel_announcement'', cancel_announcement_callback e u)]\<rparr>"

subsection \<open>One update\<close>

text \<open>
  The handlers in the order in which \<^verbatim>\<open>main()\<close> adds them: the approval handler, the
  four cancel buttons, the four conversations, the menu buttons, the two commands, and
  the handler of new members (added only \<^verbatim>\<open>if MAIN_CHANNEL_ID\<close>).
\<close>

definition process_update :: "config \<Rightarrow> env \<Rightarrow> update \<Rightarrow> world \<Rightarrow> world" where
  "process_update cfg e u w =
     (let key = (chat u, uid (user u)) in
      if pattern_prefix ''approve_'' u \<or> pattern_prefix ''reject_'' u then
        run_callback cfg e (user_approval_handler cfg e u) w
      else if pattern_exact ''cancel_registration'' u then
        run_callback cfg e (cancel_registration_callback e u) w
      else if pattern_exact ''cancel_announcement'' u then
        run_callback cfg e (cancel_announcement_callback e u) w
      else if pattern_exact ''cancel_question'' u then
        run_callback cfg e (cancel_question_callback e u) w
      else if pattern_exact ''cancel_reply'' u then
        run_callback cfg e (cancel_reply_callback e u) w
      else
       (case conv_check (registration_conv_handler cfg e u) (registration_conv w key) u of
          Some cb \<Rightarrow> conv_run cfg e registration_conv_update key cb w
        | None \<Rightarrow>
       (case conv_check (ask_comment_conv_handler cfg e u) (ask_comment_conv w key) u of
          Some cb \<Rightarrow> conv_run cfg e ask_comment_conv_update key cb w
        | None \<Rightarrow>
       (case conv_check (reply_comment_conv_handler cfg e u) (reply_comment_conv w key) u of
          Some cb \<Rightarrow> conv_run cfg e reply_comment_conv_update key cb w
        | None \<Rightarrow>
       (case conv_check (announcement_conv_handler cfg e u) (announcement_conv w key) u of
          Some cb \<Rightarrow> conv_run cfg e announcement_conv_update key cb w
        | None \<Rightarrow>
            if filters_TEXT u \<and> \<not> filters_COMMAND u then
              run_callback cfg e (handle_menu_buttons cfg e u) w
            else if command ''start'' u then run_callback cfg e (start cfg e u) w
            else if command ''cancel'' u then run_callback cfg e (cancel cfg e u) w
            else if truthy_id (main_channel_id cfg) \<and> new_members_of_main cfg u then
              run_callback cfg e (handle_new_chat_members cfg e u) w
            else w)))))"

text \<open>The updates of a run, one after the other.\<close>

definition run :: "config \<Rightarrow> env \<Rightarrow> update list \<Rightarrow> world \<Rightarrow> world" where
  "run cfg e us w = foldl (\<lambda>w u. process_update cfg e u w) w us"

text \<open>The application as \<^verbatim>\<open>main()\<close> starts it: four empty dictionaries, no session.\<close>

definition initial_world :: world where
  "initial_world =
     \<lparr>bot_data = \<lparr>user_statuses = [], user_data = [], pending_reviews = [], pending_comments = []\<rparr>,
      sessions = (\<lambda>_. empty_session),
      registration_conv = (\<lambda>_. None), ask_comment_conv = (\<lambda>_. None),
      reply_comment_conv = (\<lambda>_. None), announcement_conv = (\<lambda>_. None),
      outbox = []\<rparr>"


section \<open>Vocabulary of the properties\<close>

text \<open>The calls made between two worlds of a run, in order.\<close>

definition calls_since :: "world \<Rightarrow> world \<Rightarrow> call list" where
  "calls_since w w' = map fst (drop (length (outbox w)) (outbox w'))"

text \<open>The status an admin action stands for.\<close>

definition decision :: "string \<Rightarrow> status" where
  "decision action = (if action = ''approve'' then Approved else Rejected)"

text \<open>
  The calls of an approval that finds no entry: the answer to the button press, the
  report, and the error text when the report itself could not be delivered.
\<close>

definition already_processed_calls :: "env \<Rightarrow> update \<Rightarrow> world \<Rightarrow> call list" where
  "already_processed_calls e u w =
     [AnswerCallbackQuery None,
      edit_message_text u (Plain ''Request already processed or not found.'') NoMarkup]
     @ (if delivers e (Suc (length (outbox w)))
             (edit_message_text u (Plain ''Request already processed or not found.'') NoMarkup)
        then []
        else [edit_message_text u (Plain ''Error processing request. Please try again.'') NoMarkup])"


text \<open>
  The calls that notify someone of a decision: the photo for the log channel, the invite
  link and the messages to the user.
\<close>

definition notification :: "call \<Rightarrow> bool" where
  "notification c =
     (case c of
        SendPhoto _ _ _ _ \<Rightarrow> True
      | SendMessage _ _ _ \<Rightarrow> True
      | CreateChatInviteLink _ _ \<Rightarrow> True
      | _ \<Rightarrow> False)"

text \<open>The cohort an announcement goes to: the one chosen in the session, or everybody.\<close>

definition cohort :: "world \<Rightarrow> update \<Rightarrow> string" where
  "cohort w u = (case announcement_semester (sessions w (uid (user u))) of None \<Rightarrow> ''all'' | Some s \<Rightarrow> s)"

text \<open>The semester in the record of a user.\<close>

definition stored_semester :: "world \<Rightarrow> int \<Rightarrow> string option" where
  "stored_semester w i = Option.bind (map_of (user_data (bot_data w)) i) semester"

text \<open>The call that relays an announcement to one target; none for other content.\<close>

definition announcement_call :: "message \<Rightarrow> int \<Rightarrow> call option" where
  "announcement_call m i =
     (case msg_text m of
        Some (c # cs) \<Rightarrow> Some (SendMessage i (Announcement (c # cs)) NoMarkup)
      | _ \<Rightarrow>
          if photo m \<noteq> [] then
            Some (SendPhoto i (last (photo m))
                    (Announcement (case caption m of None \<Rightarrow> [] | Some t \<Rightarrow> t)) NoMarkup)
          else None)"

text \<open>
  A submission of user \<open>i\<close>: a photo of \<open>i\<close> that arrives while the registration of
  \<open>i\<close> in that chat waits for the screenshot. These are the updates that the application
  hands to \<^verbatim>\<open>receive_screenshot\<close>.
\<close>

definition submission :: "world \<Rightarrow> int \<Rightarrow> update \<Rightarrow> bool" where
  "submission w i u =
     (uid (user u) = i \<and> filters_PHOTO u \<and>
      registration_conv w (chat u, uid (user u)) = Some AWAITING_SCREENSHOT)"

text \<open>Whether some update of a run that starts in \<open>w\<close> is a submission of user \<open>i\<close>.\<close>

fun resubmits :: "config \<Rightarrow> env \<Rightarrow> int \<Rightarrow> update list \<Rightarrow> world \<Rightarrow> bool" where
  "resubmits cfg e i [] w = False"
| "resubmits cfg e i (u # us) w =
     (submission w i u \<or> resubmits cfg e i us (process_update cfg e u w))"

text \<open>A callback that leaves the statuses and the review queue alone.\<close>

definition quiet :: "callback \<Rightarrow> bool" where
  "quiet cb = (\<forall>w. user_statuses (bot_data (snd (cb w))) = user_statuses (bot_data w) \<and>
                    pending_reviews (bot_data (snd (cb w))) = pending_reviews (bot_data w))"

text \<open>A callback that gives user \<open>i\<close> neither a queue entry nor another status.\<close>

definition keeps :: "int \<Rightarrow> callback \<Rightarrow> bool" where
  "keeps i cb = (\<forall>w. map_of (pending_reviews (bot_data w)) i = None \<longrightarrow>
                     map_of (pending_reviews (bot_data (snd (cb w)))) i = None \<and>
                     status_of (snd (cb w)) i = status_of w i)"

text \<open>
  The callbacks \<^verbatim>\<open>main()\<close> registers, alone or in a conversation;
  \<^verbatim>\<open>receive_screenshot\<close> stands behind the photo filter, in the state
  \<open>AWAITING_SCREENSHOT\<close> of the registration.
\<close>

definition registered :: "config \<Rightarrow> env \<Rightarrow> update \<Rightarrow> world \<Rightarrow> callback set" where
  "registered cfg e u w =
     {user_approval_handler cfg e u, cancel_registration_callback e u,
      cancel_announcement_callback e u, cancel_question_callback e u, cancel_reply_callback e u,
      handle_get_started_callback e u, start cfg e u, get_full_name e u, get_semester e u,
      get_stream e u, get_gender e u, get_payment_method e u, cancel cfg e u,
      ask_question_start e u, receive_comment cfg e u,
      reply_to_comment_start e u, send_reply_to_user e u,
      announcement_start e u, announcement_semester_cb e u, announcement_content e u,
      handle_menu_buttons cfg e u, handle_new_chat_members cfg e u}
     \<union> (if filters_PHOTO u \<and> registration_conv w (chat u, uid (user u)) = Some AWAITING_SCREENSHOT
        then {receive_screenshot cfg e u} else {})"

text \<open>
  What one update can do to the statuses and the review queue: nothing, empty the queue,
  remove the entry of a user (with or without a decision on the status), or store a
  submission.
\<close>

definition step_effect :: "bot_data \<Rightarrow> bot_data \<Rightarrow> bool" where
  "step_effect b b' =
     ((user_statuses b' = user_statuses b \<and> pending_reviews b' = pending_reviews b) \<or>
      (user_statuses b' = user_statuses b \<and> pending_reviews b' = []) \<or>
      (\<exists>j entry. map_of (pending_reviews b) j = Some entry \<and>
         pending_reviews b' = AList.delete j (pending_reviews b) \<and>
         (user_statuses b' = user_statuses b \<or>
          user_statuses b' = AList.update j Approved (user_statuses b) \<or>
          user_statuses b' = AList.update j Rejected (user_statuses b))) \<or>
      (\<exists>i p. user_statuses b' = AList.update i Pending (user_statuses b) \<and>
         pending_reviews b' = AList.update i p (pending_reviews b)))"

text \<open>
  Keys occur once, and whoever has an entry in the review queue has the status pending.
\<close>

definition well_formed :: "bot_data \<Rightarrow> bool" where
  "well_formed b =
     (distinct (map fst (user_statuses b)) \<and> distinct (map fst (pending_reviews b)) \<and>
      (\<forall>i \<in> fst ` set (pending_reviews b). map_of (user_statuses b) i = Some Pending))"

text \<open>A change of status: to pending, or from pending to approved or rejected.\<close>

definition edge :: "status option \<Rightarrow> status option \<Rightarrow> bool" where
  "edge a b = (a = b \<or> b = Some Pending \<or> (a = Some Pending \<and> (b = Some Approved \<or> b = Some Rejected)))"

section \<open>Example data\<close>

definition cfg0 :: config where
  "cfg0 = \<lparr>admin_ids = [1], log_channel_id = Some (-100), main_channel_id = Some (-200),
            contact_username = None, contact_phone = None\<rparr>"

text \<open>An environment in which every call goes through.\<close>

definition env_ok :: env where
  "env_ok = \<lparr>delivers = (\<lambda>_ _. True), minted_link = (\<lambda>_. ''https://t.me/+one'')\<rparr>"

text \<open>An environment in which the confirmation of a submission cannot be delivered.\<close>

definition env_no_thanks :: env where
  "env_no_thanks =
     \<lparr>delivers = (\<lambda>_ c. case c of ReplyText _ (ThankYouSubmission _) _ \<Rightarrow> False | _ \<Rightarrow> True),
      minted_link = (\<lambda>_. ''https://t.me/+one'')\<rparr>"

text \<open>An environment in which no button press can be answered.\<close>

definition env_no_answer :: env where
  "env_no_answer =
     \<lparr>delivers = (\<lambda>_ c. case c of AnswerCallbackQuery _ \<Rightarrow> False | _ \<Rightarrow> True),
      minted_link = (\<lambda>_. ''https://t.me/+one'')\<rparr>"

definition person :: "int \<Rightarrow> tg_user" where
  "person i = \<lparr>uid = i, u_first_name = ''Abebe'', u_username = None, u_full_name = ''Abebe B''\<rparr>"

definition empty_message :: message where
  "empty_message =
     \<lparr>message_id = 1, date = 0, msg_text = None, bot_command = None, photo = [],
      caption = None, new_chat_members = []\<rparr>"

text \<open>Updates of user \<open>i\<close> in the private chat with the bot (its id is the user's).\<close>

definition button_press :: "int \<Rightarrow> string \<Rightarrow> update" where
  "button_press i d = \<lparr>chat = i, user = person i, msg = empty_message, callback_data = Some d\<rparr>"

definition text_message :: "int \<Rightarrow> string \<Rightarrow> update" where
  "text_message i t =
     \<lparr>chat = i, user = person i, msg = empty_message\<lparr>msg_text := Some t\<rparr>, callback_data = None\<rparr>"

definition photo_message :: "int \<Rightarrow> update" where
  "photo_message i =
     \<lparr>chat = i, user = person i, msg = empty_message\<lparr>photo := [''file1'']\<rparr>,
      callback_data = None\<rparr>"

definition command_message :: "int \<Rightarrow> string \<Rightarrow> update" where
  "command_message i c =
     \<lparr>chat = i, user = person i,
      msg = empty_message\<lparr>msg_text := Some (CHR ''/'' # c), bot_command := Some c\<rparr>,
      callback_data = None\<rparr>"

text \<open>
  A registration of user 7, from the start button to the screenshot. \<open>stream_data\<close> is
  the data of the stream button pressed.
\<close>

definition registration :: "string \<Rightarrow> update list" where
  "registration stream_data =
     [button_press 7 ''get_started'', text_message 7 ''Abebe B'',
      button_press 7 ''semester_Second Semester'', button_press 7 stream_data,
      button_press 7 ''gender_Male'', button_press 7 ''method_CBE'', photo_message 7]"

definition example_entry :: pending_info where
  "example_entry =
     \<lparr>info = \<lparr>full_name = Some ''Abebe B'', semester = Some ''First Semester'',
               stream = Some ''Natural Science'', gender = Some ''Male'',
               payment_method = Some ''CBE'', username = None, first_name = ''Abebe'',
               info_user_id = 7\<rparr>,
      payment_id = ''ABJ71'', screenshot_file_id = ''file1'', timestamp = 0\<rparr>"

text \<open>User 7 has submitted and waits for the review.\<close>

definition world_pending :: world where
  "world_pending =
     initial_world\<lparr>bot_data :=
       \<lparr>user_statuses = [(7, Pending)], user_data = [(7, info example_entry)],
        pending_reviews = [(7, example_entry)], pending_comments = []\<rparr>\<rparr>"


text \<open>An environment in which no notification gets through.\<close>

definition env_no_notifications :: env where
  "env_no_notifications =
     \<lparr>delivers = (\<lambda>_ c. \<not> notification c), minted_link = (\<lambda>_. ''https://t.me/+one'')\<rparr>"

definition profile :: "int \<Rightarrow> string \<Rightarrow> user_info" where
  "profile i sem =
     \<lparr>full_name = Some ''Abebe B'', semester = Some sem, stream = Some ''Natural Science'',
      gender = Some ''Male'', payment_method = Some ''CBE'', username = None,
      first_name = ''Abebe'', info_user_id = i\<rparr>"

text \<open>
  Users 10 and 11 are approved, in the first and in the second semester; user 12 is
  pending. Admin 1 has chosen the first semester for an announcement.
\<close>

definition world_cohorts :: world where
  "world_cohorts =
     initial_world
       \<lparr>bot_data :=
          \<lparr>user_statuses = [(10, Approved), (11, Approved), (12, Pending)],
           user_data = [(10, profile 10 ''First Semester''), (11, profile 11 ''Second Semester''),
                        (12, profile 12 ''First Semester'')],
           pending_reviews = [], pending_comments = []\<rparr>,
        sessions := (\<lambda>_. empty_session)
          (1 := empty_session\<lparr>announcement_semester := Some ''First Semester''\<rparr>)\<rparr>"

text \<open>A message with neither text nor photo, such as a document.\<close>

definition document_message :: "int \<Rightarrow> update" where
  "document_message i = \<lparr>chat = i, user = person i, msg = empty_message, callback_data = None\<rparr>"

text \<open>User \<open>i\<close> joins the main channel of \<open>cfg0\<close>.\<close>

definition join_message :: "int \<Rightarrow> update" where
  "join_message i =
     \<lparr>chat = -200, user = person i,
      msg = empty_message\<lparr>new_chat_members := [person i]\<rparr>,
      callback_data = None\<rparr>"

text \<open>
  The same update in another chat, such as a group that the user shares with the bot.
\<close>

definition in_chat :: "int \<Rightarrow> update \<Rightarrow> update" where
  "in_chat c u = u\<lparr>chat := c\<rparr>"

text \<open>
  User 7 goes through the registration up to the screenshot twice, in the private chat
  and in chat 99, sends the screenshot in the private chat, and admin 1 approves.
\<close>

definition two_chats :: "update list" where
  "two_chats =
     butlast (registration ''stream_Health'')
     @ map (in_chat 99) (butlast (registration ''stream_Health''))
     @ [photo_message 7, button_press 1 ''approve_7'']"

section \<open>Calls and the state\<close>

lemma with_user_data_frame [simp]:
  "bot_data (with_user_data i f w) = bot_data w"
  "outbox (with_user_data i f w) = outbox w"
  "registration_conv (with_user_data i f w) = registration_conv w"
  "ask_comment_conv (with_user_data i f w) = ask_comment_conv w"
  "reply_comment_conv (with_user_data i f w) = reply_comment_conv w"
  "announcement_conv (with_user_data i f w) = announcement_conv w"
  by (simp_all add: with_user_data_def)

lemma clear_user_data_frame [simp]:
  "bot_data (clear_user_data u w) = bot_data w"
  "outbox (clear_user_data u w) = outbox w"
  "registration_conv (clear_user_data u w) = registration_conv w"
  "ask_comment_conv (clear_user_data u w) = ask_comment_conv w"
  "reply_comment_conv (clear_user_data u w) = reply_comment_conv w"
  "announcement_conv (clear_user_data u w) = announcement_conv w"
  by (simp_all add: clear_user_data_def)

lemma api_frame [simp]:
  "bot_data (snd (api e c w)) = bot_data w"
  "sessions (snd (api e c w)) = sessions w"
  "registration_conv (snd (api e c w)) = registration_conv w"
  "ask_comment_conv (snd (api e c w)) = ask_comment_conv w"
  "reply_comment_conv (snd (api e c w)) = reply_comment_conv w"
  "announcement_conv (snd (api e c w)) = announcement_conv w"
  "outbox (snd (api e c w)) = outbox w @ [(c, delivers e (length (outbox w)) c)]"
  "fst (api e c w) = delivers e (length (outbox w)) c"
  by (simp_all add: api_def Let_def)

lemma attempt_frame [simp]:
  "bot_data (attempt e c w) = bot_data w"
  "sessions (attempt e c w) = sessions w"
  "registration_conv (attempt e c w) = registration_conv w"
  "ask_comment_conv (attempt e c w) = ask_comment_conv w"
  "reply_comment_conv (attempt e c w) = reply_comment_conv w"
  "announcement_conv (attempt e c w) = announcement_conv w"
  "outbox (attempt e c w) = outbox w @ [(c, delivers e (length (outbox w)) c)]"
  by (simp_all add: attempt_def)

lemma foldl_attempt_frame [simp]:
  "bot_data (foldl (\<lambda>w a. attempt e (f a) w) w xs) = bot_data w"
  "sessions (foldl (\<lambda>w a. attempt e (f a) w) w xs) = sessions w"
  "registration_conv (foldl (\<lambda>w a. attempt e (f a) w) w xs) = registration_conv w"
  "ask_comment_conv (foldl (\<lambda>w a. attempt e (f a) w) w xs) = ask_comment_conv w"
  "reply_comment_conv (foldl (\<lambda>w a. attempt e (f a) w) w xs) = reply_comment_conv w"
  "announcement_conv (foldl (\<lambda>w a. attempt e (f a) w) w xs) = announcement_conv w"
  by (induction xs arbitrary: w) simp_all

lemma error_handler_frame [simp]:
  "bot_data (error_handler cfg e x w) = bot_data w"
  "sessions (error_handler cfg e x w) = sessions w"
  "registration_conv (error_handler cfg e x w) = registration_conv w"
  "ask_comment_conv (error_handler cfg e x w) = ask_comment_conv w"
  "reply_comment_conv (error_handler cfg e x w) = reply_comment_conv w"
  "announcement_conv (error_handler cfg e x w) = announcement_conv w"
  by (simp_all add: error_handler_def)

lemma log_photo_frame [simp]:
  "bot_data (log_photo cfg e f t w) = bot_data w"
  by (simp add: log_photo_def split: option.splits)

lemma send_invite_frame [simp]:
  "bot_data (send_invite cfg e i w) = bot_data w"
  by (simp add: send_invite_def api_def Let_def)

section \<open>Approval and rejection\<close>

lemma approval_absent:
  assumes "uid (user u) \<in> set (admin_ids cfg)"
    and "callback_data u = Some d" and "split_on CHR ''_'' d = [action, s]" and "py_int s = Some i"
    and "delivers e (length (outbox w)) (AnswerCallbackQuery None)"
    and "map_of (pending_reviews (bot_data w)) i = None"
  shows "bot_data (snd (user_approval_handler cfg e u w)) = bot_data w
    \<and> calls_since w (snd (user_approval_handler cfg e u w)) = already_processed_calls e u w"
  using assms
  by (simp add: user_approval_handler_def with_query_def must_def api_def approval_try_def
        returns_def calls_since_def already_processed_calls_def Let_def)

lemma approval_present:
  assumes "uid (user u) \<in> set (admin_ids cfg)"
    and "callback_data u = Some d" and "split_on CHR ''_'' d = [action, s]" and "py_int s = Some i"
    and "action = ''approve'' \<or> action = ''reject''"
    and "delivers e (length (outbox w)) (AnswerCallbackQuery None)"
    and "map_of (pending_reviews (bot_data w)) i = Some entry"
  shows "bot_data (snd (user_approval_handler cfg e u w)) =
           (bot_data w)\<lparr>pending_reviews := AList.delete i (pending_reviews (bot_data w)),
              user_statuses := AList.update i (decision action) (user_statuses (bot_data w))\<rparr>"
  using assms
  by (auto simp add: user_approval_handler_def with_query_def must_def api_def approval_try_def
        returns_def Let_def log_photo_def send_invite_def attempt_def decision_def
        split: option.splits prod.splits)

lemma approval_unanswered:
  assumes "uid (user u) \<in> set (admin_ids cfg)" and "callback_data u = Some d"
    and "\<not> delivers e (length (outbox w)) (AnswerCallbackQuery None)"
  shows "fst (user_approval_handler cfg e u w) = Inl TelegramError \<and>
         bot_data (snd (user_approval_handler cfg e u w)) = bot_data w \<and>
         calls_since w (snd (user_approval_handler cfg e u w)) = [AnswerCallbackQuery None]"
  using assms
  by (simp add: user_approval_handler_def with_query_def must_def api_def calls_since_def Let_def)

text \<open>
  C1, as the claim states it. User 7 has an entry in the review queue and admin 1 presses
  "approve", but the answer to the button press cannot be delivered:
  \<^verbatim>\<open>query.answer()\<close> stands before the \<^verbatim>\<open>try\<close>, so the callback raises there. The
  entry is not removed, the status stays pending, and nothing is reported. Without an
  entry the same press reports nothing either, where an answered press makes the report.
\<close>

theorem unanswered_approval_changes_nothing:
  "map_of (pending_reviews (bot_data world_pending)) 7 = Some example_entry \<and>
   fst (user_approval_handler cfg0 env_no_answer (button_press 1 ''approve_7'') world_pending)
     = Inl TelegramError \<and>
   calls_since world_pending
     (snd (user_approval_handler cfg0 env_no_answer (button_press 1 ''approve_7'') world_pending))
     = [AnswerCallbackQuery None] \<and>
   map_of (pending_reviews (bot_data
     (process_update cfg0 env_no_answer (button_press 1 ''approve_7'') world_pending))) 7
     = Some example_entry \<and>
   status_of (process_update cfg0 env_no_answer (button_press 1 ''approve_7'') world_pending) 7
     = Some Pending \<and>
   map_of (pending_reviews (bot_data initial_world)) 7 = None \<and>
   calls_since initial_world
     (snd (user_approval_handler cfg0 env_no_answer (button_press 1 ''approve_7'') initial_world))
     = [AnswerCallbackQuery None] \<and>
   already_processed_calls env_ok (button_press 1 ''approve_7'') initial_world
     = [AnswerCallbackQuery None,
        EditMessageText 1 1 (Plain ''Request already processed or not found.'') NoMarkup]"
  by code_simp

text \<open>
  C1, amended. An approve or reject action of an admin on user \<open>i\<close> whose button press
  is answered: without an entry for \<open>i\<close> in the review queue the bot data stay as they
  are and the action reports "already processed" and stops; with an entry, the entry is
  removed, the status of \<open>i\<close> becomes the decision, nothing else of the bot data
  changes, and every further answered approve or reject action on \<open>i\<close> that follows
  finds no entry, changes nothing and reports "already processed". An action whose
  button press cannot be answered raises at once: it changes nothing, and its only call
  is the answer that failed.
\<close>

theorem approval_at_most_once:
  assumes "uid (user u) \<in> set (admin_ids cfg)"
    and "callback_data u = Some d" and "split_on CHR ''_'' d = [action, s]" and "py_int s = Some i"
    and "action = ''approve'' \<or> action = ''reject''"
  shows
    "(if delivers e (length (outbox w)) (AnswerCallbackQuery None) then
       (case map_of (pending_reviews (bot_data w)) i of
          None \<Rightarrow>
            bot_data (snd (user_approval_handler cfg e u w)) = bot_data w \<and>
            calls_since w (snd (user_approval_handler cfg e u w)) = already_processed_calls e u w
        | Some entry \<Rightarrow>
            (let w1 = snd (user_approval_handler cfg e u w) in
             pending_reviews (bot_data w1) = AList.delete i (pending_reviews (bot_data w)) \<and>
             map_of (pending_reviews (bot_data w1)) i = None \<and>
             user_statuses (bot_data w1) =
               AList.update i (decision action) (user_statuses (bot_data w)) \<and>
             status_of w1 i = Some (decision action) \<and>
             user_data (bot_data w1) = user_data (bot_data w) \<and>
             pending_comments (bot_data w1) = pending_comments (bot_data w) \<and>
             (\<forall>u' d' action' s'.
                uid (user u') \<in> set (admin_ids cfg) \<and> callback_data u' = Some d' \<and>
                split_on CHR ''_'' d' = [action', s'] \<and> py_int s' = Some i \<and>
                delivers e (length (outbox w1)) (AnswerCallbackQuery None) \<longrightarrow>
                bot_data (snd (user_approval_handler cfg e u' w1)) = bot_data w1 \<and>
                calls_since w1 (snd (user_approval_handler cfg e u' w1)) =
                  already_processed_calls e u' w1)))
     else
       fst (user_approval_handler cfg e u w) = Inl TelegramError \<and>
       bot_data (snd (user_approval_handler cfg e u w)) = bot_data w \<and>
       calls_since w (snd (user_approval_handler cfg e u w)) = [AnswerCallbackQuery None])"
proof (cases "delivers e (length (outbox w)) (AnswerCallbackQuery None)")
  case False
  with approval_unanswered [OF assms(1,2)] show ?thesis by simp
next
  case answered: True
  show ?thesis
  proof (cases "map_of (pending_reviews (bot_data w)) i")
    case None
    with approval_absent [OF assms(1-4) answered] answered show ?thesis by simp
  next
    case (Some entry)
    let ?w1 = "snd (user_approval_handler cfg e u w)"
    have b: "bot_data ?w1 =
        (bot_data w)\<lparr>pending_reviews := AList.delete i (pending_reviews (bot_data w)),
           user_statuses := AList.update i (decision action) (user_statuses (bot_data w))\<rparr>"
      by (rule approval_present [OF assms answered Some])
    have gone: "map_of (pending_reviews (bot_data ?w1)) i = None"
      by (simp add: b delete_conv')
    have again: "bot_data (snd (user_approval_handler cfg e u' ?w1)) = bot_data ?w1 \<and>
        calls_since ?w1 (snd (user_approval_handler cfg e u' ?w1)) = already_processed_calls e u' ?w1"
      if "uid (user u') \<in> set (admin_ids cfg)" "callback_data u' = Some d'"
        "split_on CHR ''_'' d' = [action', s']" "py_int s' = Some i"
        "delivers e (length (outbox ?w1)) (AnswerCallbackQuery None)"
      for u' d' action' s'
      by (rule approval_absent [OF that gone])
    have f1: "pending_reviews (bot_data ?w1) = AList.delete i (pending_reviews (bot_data w))"
      and f3: "user_statuses (bot_data ?w1) =
                 AList.update i (decision action) (user_statuses (bot_data w))"
      and f5: "user_data (bot_data ?w1) = user_data (bot_data w)"
      and f6: "pending_comments (bot_data ?w1) = pending_comments (bot_data w)"
      by (simp_all add: b)
    have f4: "status_of ?w1 i = Some (decision action)"
      by (simp add: status_of_def f3 update_conv')
    show ?thesis
      unfolding if_P [OF answered] Some option.case Let_def
      using f1 gone f3 f4 f5 f6 again by blast
  qed
qed

theorem approval_at_most_once_witness:
  "uid (user (button_press 1 ''approve_7'')) \<in> set (admin_ids cfg0) \<and>
   split_on CHR ''_'' ''approve_7'' = [''approve'', ''7''] \<and> py_int ''7'' = Some 7 \<and>
   map_of (pending_reviews (bot_data world_pending)) 7 = Some example_entry \<and>
   status_of (snd (user_approval_handler cfg0 env_ok (button_press 1 ''approve_7'') world_pending)) 7
     = Some Approved \<and>
   map_of (pending_reviews (bot_data
     (snd (user_approval_handler cfg0 env_ok (button_press 1 ''approve_7'') world_pending)))) 7 = None \<and>
   bot_data (snd (user_approval_handler cfg0 env_ok (button_press 1 ''reject_7'')
     (snd (user_approval_handler cfg0 env_ok (button_press 1 ''approve_7'') world_pending))))
   = bot_data (snd (user_approval_handler cfg0 env_ok (button_press 1 ''approve_7'') world_pending))"
proof -
  let ?u = "button_press 1 ''approve_7''" and ?u' = "button_press 1 ''reject_7''"
  let ?w1 = "snd (user_approval_handler cfg0 env_ok ?u world_pending)"
  have h1: "uid (user ?u) \<in> set (admin_ids cfg0)" by code_simp
  have h2: "callback_data ?u = Some ''approve_7''" by code_simp
  have h3: "split_on CHR ''_'' ''approve_7'' = [''approve'', ''7'']" by code_simp
  have h4: "py_int ''7'' = Some 7" by code_simp
  have h5: "''approve'' = ''approve'' \<or> ''approve'' = ''reject''" by simp
  have h6: "delivers env_ok (length (outbox world_pending)) (AnswerCallbackQuery None)"
    by (simp add: env_ok_def)
  have e: "map_of (pending_reviews (bot_data world_pending)) 7 = Some example_entry" by code_simp
  have k1: "uid (user ?u') \<in> set (admin_ids cfg0)" by code_simp
  have k2: "callback_data ?u' = Some ''reject_7''" by code_simp
  have k3: "split_on CHR ''_'' ''reject_7'' = [''reject'', ''7'']" by code_simp
  have k6: "delivers env_ok (length (outbox ?w1)) (AnswerCallbackQuery None)"
    by (simp add: env_ok_def)
  note T = approval_at_most_once [OF h1 h2 h3 h4 h5, where e = env_ok and w = world_pending,
    unfolded if_P [OF h6] e option.case Let_def]
  from T have a: "status_of ?w1 7 = Some (decision ''approve'')"
    and b: "map_of (pending_reviews (bot_data ?w1)) 7 = None"
    and c: "\<forall>u' d' action' s'.
              uid (user u') \<in> set (admin_ids cfg0) \<and> callback_data u' = Some d' \<and>
              split_on CHR ''_'' d' = [action', s'] \<and> py_int s' = Some 7 \<and>
              delivers env_ok (length (outbox ?w1)) (AnswerCallbackQuery None) \<longrightarrow>
              bot_data (snd (user_approval_handler cfg0 env_ok u' ?w1)) = bot_data ?w1 \<and>
              calls_since ?w1 (snd (user_approval_handler cfg0 env_ok u' ?w1)) =
                already_processed_calls env_ok u' ?w1"
    by blast+
  from c k1 k2 k3 h4 k6 have d: "bot_data (snd (user_approval_handler cfg0 env_ok ?u' ?w1)) = bot_data ?w1"
    by blast
  from a have a': "status_of ?w1 7 = Some Approved" by (simp add: decision_def)
  show ?thesis using h1 h3 h4 e a' b d by blast
qed

text \<open>
  C6. An approve or reject action that finds an entry removes it and sets the status,
  whatever the environment does with the calls that follow; and when only notifications
  fail (the log photo, the invite link, the messages to the user), the callback returns
  normally: no error reaches the application.
\<close>

theorem decision_survives_delivery_failures:
  assumes "uid (user u) \<in> set (admin_ids cfg)"
    and "callback_data u = Some d" and "split_on CHR ''_'' d = [action, s]" and "py_int s = Some i"
    and "action = ''approve'' \<or> action = ''reject''"
    and "delivers e (length (outbox w)) (AnswerCallbackQuery None)"
    and "map_of (pending_reviews (bot_data w)) i = Some entry"
  shows "bot_data (snd (user_approval_handler cfg e u w)) =
           (bot_data w)\<lparr>pending_reviews := AList.delete i (pending_reviews (bot_data w)),
              user_statuses := AList.update i (decision action) (user_statuses (bot_data w))\<rparr> \<and>
         ((\<forall>n c. \<not> notification c \<longrightarrow> delivers e n c) \<longrightarrow>
            fst (user_approval_handler cfg e u w) = Inr NoValue)"
proof -
  have "fst (user_approval_handler cfg e u w) = Inr NoValue"
    if "\<forall>n c. \<not> notification c \<longrightarrow> delivers e n c"
  proof -
    have del: "delivers e n (DeleteMessage a b)" for n a b
      using that by (simp add: notification_def)
    show ?thesis
      using assms
      by (auto simp add: user_approval_handler_def with_query_def must_def api_def approval_try_def
        returns_def Let_def log_photo_def send_invite_def attempt_def del
        split: option.splits prod.splits)
  qed
  with approval_present [OF assms] show ?thesis by blast
qed

theorem decision_survives_delivery_failures_witness:
  "map_of (pending_reviews (bot_data world_pending)) 7 = Some example_entry \<and>
   bot_data (snd (user_approval_handler cfg0 env_no_notifications (button_press 1 ''approve_7'') world_pending)) =
     \<lparr>user_statuses = [(7, Approved)], user_data = [(7, info example_entry)],
      pending_reviews = [], pending_comments = []\<rparr> \<and>
   fst (user_approval_handler cfg0 env_no_notifications (button_press 1 ''approve_7'') world_pending)
     = Inr NoValue \<and>
   calls_since world_pending
     (snd (user_approval_handler cfg0 env_no_notifications (button_press 1 ''approve_7'') world_pending))
     = [AnswerCallbackQuery None,
        SendPhoto (-100) ''file1'' (UserApprovedLog example_entry 7 (person 1) 0) NoMarkup,
        CreateChatInviteLink (Some (-200)) 1,
        DeleteMessage 1 1]"
proof -
  let ?u = "button_press 1 ''approve_7''"
  have h1: "uid (user ?u) \<in> set (admin_ids cfg0)" by code_simp
  have h2: "callback_data ?u = Some ''approve_7''" by code_simp
  have h3: "split_on CHR ''_'' ''approve_7'' = [''approve'', ''7'']" by code_simp
  have h4: "py_int ''7'' = Some 7" by code_simp
  have h5: "''approve'' = ''approve'' \<or> ''approve'' = ''reject''" by simp
  have h6: "delivers env_no_notifications (length (outbox world_pending)) (AnswerCallbackQuery None)"
    by (simp add: env_no_notifications_def notification_def)
  have h7: "map_of (pending_reviews (bot_data world_pending)) 7 = Some example_entry" by code_simp
  have h8: "\<forall>n c. \<not> notification c \<longrightarrow> delivers env_no_notifications n c"
    by (simp add: env_no_notifications_def)
  note T = decision_survives_delivery_failures [OF h1 h2 h3 h4 h5 h6 h7]
  have b: "(bot_data world_pending)\<lparr>pending_reviews := AList.delete 7 (pending_reviews (bot_data world_pending)),
              user_statuses := AList.update 7 (decision ''approve'') (user_statuses (bot_data world_pending))\<rparr>
        = \<lparr>user_statuses = [(7, Approved)], user_data = [(7, info example_entry)],
      pending_reviews = [], pending_comments = []\<rparr>"
    by code_simp
  have c: "calls_since world_pending
     (snd (user_approval_handler cfg0 env_no_notifications (button_press 1 ''approve_7'') world_pending))
     = [AnswerCallbackQuery None,
        SendPhoto (-100) ''file1'' (UserApprovedLog example_entry 7 (person 1) 0) NoMarkup,
        CreateChatInviteLink (Some (-200)) 1,
        DeleteMessage 1 1]"
    by code_simp
  from T h8 b c h7 show ?thesis by simp
qed

section \<open>Announcements\<close>

lemma broadcast_counts:
  "broadcast e m targets s f w = (s', f', w') \<Longrightarrow> s' + f' = s + f + length targets"
proof (induction targets arbitrary: s f w)
  case Nil
  then show ?case by simp
next
  case (Cons i rest)
  then show ?case
    by (auto simp add: api_def Let_def split: option.splits list.splits if_splits)
qed

lemma broadcast_frame:
  "broadcast e m targets s f w = (s', f', w') \<Longrightarrow>
     bot_data w' = bot_data w \<and> sessions w' = sessions w \<and>
     (\<exists>calls. outbox w' = outbox w @ calls \<and> map fst calls = List.map_filter (announcement_call m) targets)"
proof (induction targets arbitrary: s f w)
  case Nil
  then show ?case by (simp add: map_filter_simps)
next
  case (Cons i rest)
  show ?case
  proof (cases "announcement_call m i")
    case None
    then have "broadcast e m (i # rest) s f w = broadcast e m rest (s + 1) f w"
      by (auto simp add: announcement_call_def split: option.splits list.splits if_splits)
    with Cons.prems Cons.IH [of "s + 1" f w] None show ?thesis
      by (simp add: map_filter_simps)
  next
    case (Some c)
    let ?ok = "delivers e (length (outbox w)) c"
    let ?w1 = "outbox_update (\<lambda>calls. calls @ [(c, ?ok)]) w"
    from Some have step: "broadcast e m (i # rest) s f w =
        (if ?ok then broadcast e m rest (s + 1) f ?w1 else broadcast e m rest s (f + 1) ?w1)"
      by (auto simp add: announcement_call_def api_def Let_def split: option.splits list.splits if_splits)
    show ?thesis
    proof (cases ?ok)
      case True
      with step Cons.prems have "broadcast e m rest (s + 1) f ?w1 = (s', f', w')" by simp
      from Cons.IH [OF this] Some show ?thesis
        by (auto simp add: map_filter_simps)
    next
      case False
      with step Cons.prems have "broadcast e m rest s (f + 1) ?w1 = (s', f', w')" by simp
      from Cons.IH [OF this] Some show ?thesis
        by (auto simp add: map_filter_simps)
    qed
  qed
qed

lemma target_users_set:
  assumes "distinct (map fst (user_statuses b))"
  shows "set (target_users b sem) =
           {i. map_of (user_statuses b) i = Some Approved \<and>
               (sem = ''all'' \<or> Option.bind (map_of (user_data b) i) semester = Some sem)}"
  using assms by (auto simp add: target_users_def image_iff)

lemma target_users_distinct:
  assumes "distinct (map fst (user_statuses b))"
  shows "distinct (target_users b sem)"
  using assms unfolding target_users_def by (simp add: distinct_map_filter)

lemma broadcast_nothing:
  assumes "msg_text m = None \<or> msg_text m = Some []" and "photo m = []"
  shows "broadcast e m targets s f w = (s + length targets, f, w)"
  using assms by (induction targets arbitrary: s) auto

text \<open>
  C10. Content that is neither a text nor a photo: the handler makes no call to any
  target, only the summary to the admin, and the summary counts every target as sent and
  none as failed.
\<close>

theorem announcement_without_text_or_photo:
  assumes "msg_text (msg u) = None \<or> msg_text (msg u) = Some []" and "photo (msg u) = []"
  shows "calls_since w (snd (announcement_content e u w)) =
           [reply_text u
              (AnnouncementSummary (cohort w u) (length (target_users (bot_data w) (cohort w u))) 0)
              (ReplyKeyboard admin_menu)]"
  by (simp add: announcement_content_def broadcast_nothing [OF assms] cohort_def Let_def
        must_def api_def calls_since_def)

theorem announcement_without_text_or_photo_witness:
  "(msg_text (msg (document_message 1)) = None \<or> msg_text (msg (document_message 1)) = Some []) \<and>
   photo (msg (document_message 1)) = [] \<and>
   target_users (bot_data world_cohorts) (cohort world_cohorts (document_message 1)) = [10] \<and>
   calls_since world_cohorts (snd (announcement_content env_ok (document_message 1) world_cohorts)) =
     [ReplyText 1 (AnnouncementSummary ''First Semester'' 1 0) (ReplyKeyboard admin_menu)]"
proof -
  have h1: "msg_text (msg (document_message 1)) = None \<or> msg_text (msg (document_message 1)) = Some []"
    by code_simp
  have h2: "photo (msg (document_message 1)) = []" by code_simp
  have t: "target_users (bot_data world_cohorts) (cohort world_cohorts (document_message 1)) = [10]"
    by code_simp
  have c: "cohort world_cohorts (document_message 1) = ''First Semester''" by code_simp
  have r: "reply_text (document_message 1) = ReplyText 1"
    by (simp add: reply_text_def document_message_def fun_eq_iff)
  from announcement_without_text_or_photo [OF h1 h2, of world_cohorts env_ok] h1 h2 t c r
  show ?thesis by simp
qed

text \<open>
  C5. The targets of an announcement to a cohort are the users whose status is approved
  and whose stored semester is the cohort (all approved users for the cohort "all"), each
  once; the handler makes one call per target for a text or a photo, then reports to the
  admin a sent count and a failed count that add up to the number of targets.
\<close>

theorem announcement_targets_and_counts:
  assumes "distinct (map fst (user_statuses (bot_data w)))"
  shows "set (target_users (bot_data w) sem) =
           {i. status_of w i = Some Approved \<and> (sem = ''all'' \<or> stored_semester w i = Some sem)} \<and>
         distinct (target_users (bot_data w) sem) \<and>
         (\<exists>sent failed.
            sent + failed = card (set (target_users (bot_data w) (cohort w u))) \<and>
            calls_since w (snd (announcement_content e u w)) =
              List.map_filter (announcement_call (msg u)) (target_users (bot_data w) (cohort w u))
              @ [reply_text u (AnnouncementSummary (cohort w u) sent failed) (ReplyKeyboard admin_menu)])"
proof -
  let ?targets = "target_users (bot_data w) (cohort w u)"
  obtain sent failed w1 where br: "broadcast e (msg u) ?targets 0 0 w = (sent, failed, w1)"
    by (cases "broadcast e (msg u) ?targets 0 0 w") auto
  from broadcast_counts [OF br] have n: "sent + failed = length ?targets" by simp
  from broadcast_frame [OF br] obtain calls where
    o: "outbox w1 = outbox w @ calls" and
    c: "map fst calls = List.map_filter (announcement_call (msg u)) ?targets"
    by blast
  have "calls_since w (snd (announcement_content e u w)) =
          List.map_filter (announcement_call (msg u)) ?targets
          @ [reply_text u (AnnouncementSummary (cohort w u) sent failed) (ReplyKeyboard admin_menu)]"
    using br o c
    by (simp add: announcement_content_def cohort_def [symmetric] must_def api_def calls_since_def Let_def)
  moreover have "sent + failed = card (set ?targets)"
    using n target_users_distinct [OF assms, of "cohort w u"] by (simp add: distinct_card)
  ultimately show ?thesis
    using target_users_set [OF assms, of sem] target_users_distinct [OF assms, of sem]
    by (auto simp add: status_of_def stored_semester_def)
qed

theorem announcement_targets_and_counts_witness:
  "distinct (map fst (user_statuses (bot_data world_cohorts))) \<and>
   set (target_users (bot_data world_cohorts) ''First Semester'') =
     {i. status_of world_cohorts i = Some Approved \<and> stored_semester world_cohorts i = Some ''First Semester''} \<and>
   target_users (bot_data world_cohorts) ''First Semester'' = [10] \<and>
   calls_since world_cohorts
     (snd (announcement_content env_ok (text_message 1 ''Exam on Monday'') world_cohorts)) =
     [SendMessage 10 (Announcement ''Exam on Monday'') NoMarkup,
      ReplyText 1 (AnnouncementSummary ''First Semester'' 1 0) (ReplyKeyboard admin_menu)]"
proof -
  have d: "distinct (map fst (user_statuses (bot_data world_cohorts)))" by code_simp
  have ne: "''First Semester'' \<noteq> ''all''" by simp
  have t: "target_users (bot_data world_cohorts) ''First Semester'' = [10]" by code_simp
  have c: "calls_since world_cohorts
     (snd (announcement_content env_ok (text_message 1 ''Exam on Monday'') world_cohorts)) =
     [SendMessage 10 (Announcement ''Exam on Monday'') NoMarkup,
      ReplyText 1 (AnnouncementSummary ''First Semester'' 1 0) (ReplyKeyboard admin_menu)]"
    by code_simp
  from announcement_targets_and_counts [OF d, of "''First Semester''"] ne
  have "set (target_users (bot_data world_cohorts) ''First Semester'') =
     {i. status_of world_cohorts i = Some Approved \<and> stored_semester world_cohorts i = Some ''First Semester''}"
    by simp
  with d t c show ?thesis by blast
qed

section \<open>Joins of the main channel\<close>

lemma remove_member_bot_data [simp]: "bot_data (remove_member cfg e c l m w) = bot_data w"
  by (simp add: remove_member_def log_note_def attempt_def api_def Let_def
        split: option.splits prod.splits)

lemma remove_members_bot_data:
  "bot_data (foldl (\<lambda>w m. remove_member cfg e c l m w) w ms) = bot_data w"
  by (induction ms arbitrary: w) simp_all

text \<open>
  C4. The handler of new members never takes the branch that removes a member: the link
  it reads from the message is always \<open>None\<close>, so for every configuration, every
  update and every world it returns with the world as it was. In the run shown, user 9,
  who has no status, joins the main channel; the application hands the join to the
  handler, and no call is made: no ban, no unban, no note to the log channel.
\<close>

theorem unapproved_join_is_not_removed:
  "handle_new_chat_members cfg e u w = (Inr NoValue, w) \<and>
   status_of initial_world 9 = None \<and>
   truthy_id (main_channel_id cfg0) \<and> new_members_of_main cfg0 (join_message 9) \<and>
   calls_since initial_world (process_update cfg0 env_ok (join_message 9) initial_world) = []"
proof -
  have "foldl (\<lambda>w member. remove_member cfg e c None member w) w ms = w" for c ms
    by (induction ms) (simp_all add: remove_member_def)
  then have 1: "handle_new_chat_members cfg e u w = (Inr NoValue, w)"
    by (simp add: handle_new_chat_members_def getattr_invite_link_def)
  have 2: "status_of initial_world 9 = None" by code_simp
  have 3: "truthy_id (main_channel_id cfg0)" by code_simp
  have 4: "new_members_of_main cfg0 (join_message 9)" by code_simp
  have 5: "calls_since initial_world (process_update cfg0 env_ok (join_message 9) initial_world) = []"
    by code_simp
  from 1 2 3 4 5 show ?thesis by blast
qed

section \<open>What the callbacks do to the statuses and the review queue\<close>

lemma quiet_keeps: "quiet cb \<Longrightarrow> keeps i cb"
  by (simp add: quiet_def keeps_def status_of_def)

lemmas prim_defs = must_def returns_def with_query_def discard_def api_def Let_def

lemma quiet_start: "quiet (start cfg e u)"
  by (simp add: quiet_def start_def prim_defs)

lemma quiet_handle_get_started_callback: "quiet (handle_get_started_callback e u)"
  by (simp add: quiet_def handle_get_started_callback_def prim_defs split: option.splits)

lemma quiet_ask_question_start: "quiet (ask_question_start e u)"
  by (simp add: quiet_def ask_question_start_def prim_defs)

lemma quiet_show_help_support: "quiet (show_help_support cfg e u)"
  by (simp add: quiet_def show_help_support_def prim_defs)

lemma quiet_announcement_start: "quiet (announcement_start e u)"
  by (simp add: quiet_def announcement_start_def prim_defs)

lemma quiet_view_stats: "quiet (view_stats e u)"
  by (simp add: quiet_def view_stats_def prim_defs)

lemma show_questions_frame [simp]: "bot_data (snd (show_questions e u qs w)) = bot_data w"
  by (induction qs arbitrary: w) (auto simp add: api_def Let_def)

lemma quiet_view_pending_questions: "quiet (view_pending_questions e u)"
  by (simp add: quiet_def view_pending_questions_def prim_defs)

lemma quiet_get_full_name: "quiet (get_full_name e u)"
  by (simp add: quiet_def get_full_name_def prim_defs split: option.splits)

lemma quiet_get_semester: "quiet (get_semester e u)"
  by (simp add: quiet_def get_semester_def prim_defs split: option.splits sum.splits)

lemma quiet_get_stream: "quiet (get_stream e u)"
  by (simp add: quiet_def get_stream_def prim_defs split: option.splits sum.splits)

lemma quiet_get_gender: "quiet (get_gender e u)"
  by (simp add: quiet_def get_gender_def prim_defs split: option.splits sum.splits)

lemma quiet_get_payment_method: "quiet (get_payment_method e u)"
  by (simp add: quiet_def get_payment_method_def prim_defs split: option.splits sum.splits)

lemma quiet_cancel_registration_callback: "quiet (cancel_registration_callback e u)"
  by (simp add: quiet_def cancel_registration_callback_def prim_defs split: option.splits)

lemma quiet_cancel_announcement_callback: "quiet (cancel_announcement_callback e u)"
  by (simp add: quiet_def cancel_announcement_callback_def prim_defs split: option.splits)

lemma quiet_cancel_question_callback: "quiet (cancel_question_callback e u)"
  by (simp add: quiet_def cancel_question_callback_def prim_defs split: option.splits)

lemma quiet_cancel_reply_callback: "quiet (cancel_reply_callback e u)"
  by (simp add: quiet_def cancel_reply_callback_def prim_defs split: option.splits)

lemma quiet_receive_comment: "quiet (receive_comment cfg e u)"
  by (simp add: quiet_def receive_comment_def prim_defs)

lemma quiet_reply_to_comment_start: "quiet (reply_to_comment_start e u)"
  by (simp add: quiet_def reply_to_comment_start_def prim_defs split: option.splits)

lemma quiet_send_reply_to_user: "quiet (send_reply_to_user e u)"
  by (simp add: quiet_def send_reply_to_user_def prim_defs split: option.splits)

lemma quiet_announcement_semester_cb: "quiet (announcement_semester_cb e u)"
  by (simp add: quiet_def announcement_semester_cb_def prim_defs split: option.splits sum.splits)

lemma quiet_announcement_content: "quiet (announcement_content e u)"
proof -
  have "bot_data (snd (announcement_content e u w)) = bot_data w" for w
  proof -
    obtain s f w1 where br: "broadcast e (msg u)
        (target_users (bot_data w) (cohort w u)) 0 0 w = (s, f, w1)"
      by (cases "broadcast e (msg u) (target_users (bot_data w) (cohort w u)) 0 0 w") auto
    from broadcast_frame [OF br] have "bot_data w1 = bot_data w" by simp
    with br show ?thesis
      by (simp add: announcement_content_def cohort_def [symmetric] prim_defs)
  qed
  then show ?thesis by (simp add: quiet_def)
qed

lemma quiet_cancel: "quiet (cancel cfg e u)"
  by (simp add: quiet_def cancel_def prim_defs)

lemma quiet_handle_new_chat_members: "quiet (handle_new_chat_members cfg e u)"
proof -
  have "bot_data (snd (handle_new_chat_members cfg e u w)) = bot_data w" for w
    by (simp add: handle_new_chat_members_def remove_members_bot_data)
  then show ?thesis by (simp add: quiet_def)
qed

lemma keeps_clear_pending_requests: "keeps i (clear_pending_requests e u)"
  by (simp add: keeps_def clear_pending_requests_def prim_defs status_of_def)


lemma snd_discard [simp]: "snd (discard h w) = snd (h w)"
  by (simp add: discard_def split: prod.splits sum.splits)

lemma keeps_discard: "keeps i cb \<Longrightarrow> keeps i (discard cb)"
  by (simp add: keeps_def)

lemma keeps_handle_menu_buttons: "keeps i (handle_menu_buttons cfg e u)"
proof -
  have k: "keeps i (\<lambda>w. must e c (returns NoValue) w)" for c
    by (simp add: keeps_def prim_defs status_of_def)
  have r: "keeps i (returns NoValue)"
    by (simp add: keeps_def prim_defs)
  show ?thesis
    unfolding keeps_def
  proof (intro allI impI)
    fix w :: world assume a: "map_of (pending_reviews (bot_data w)) i = None"
    note ks = keeps_discard [OF quiet_keeps [OF quiet_ask_question_start]]
      keeps_discard [OF quiet_keeps [OF quiet_announcement_start]]
      quiet_keeps [OF quiet_show_help_support] quiet_keeps [OF quiet_view_stats]
      quiet_keeps [OF quiet_view_pending_questions] keeps_clear_pending_requests k r
    show "map_of (pending_reviews (bot_data (snd (handle_menu_buttons cfg e u w)))) i = None \<and>
          status_of (snd (handle_menu_buttons cfg e u w)) i = status_of w i"
      using a ks [unfolded keeps_def, rule_format, OF a]
      by (simp add: handle_menu_buttons_def Let_def)
  qed
qed

lemma approval_try_keeps:
  assumes "map_of (pending_reviews (bot_data w)) i = None"
  shows "map_of (pending_reviews (bot_data (snd (approval_try cfg e u d w)))) i = None \<and>
         status_of (snd (approval_try cfg e u d w)) i = status_of w i"
proof (cases "\<exists>action s j. split_on CHR ''_'' d = [action, s] \<and> py_int s = Some j \<and>
                map_of (pending_reviews (bot_data w)) j \<noteq> None")
  case False
  then have "bot_data (snd (approval_try cfg e u d w)) = bot_data w"
    by (auto simp add: approval_try_def must_def returns_def api_def Let_def
          split: list.splits option.splits)
  with assms show ?thesis by (simp add: status_of_def)
next
  case True
  then obtain action s j entry where p: "split_on CHR ''_'' d = [action, s]" "py_int s = Some j"
    "map_of (pending_reviews (bot_data w)) j = Some entry" by auto
  with assms have ne: "j \<noteq> i" by auto
  have "\<exists>f. bot_data (snd (approval_try cfg e u d w)) =
          (bot_data w)\<lparr>pending_reviews := AList.delete j (pending_reviews (bot_data w)),
                       user_statuses := f j (user_statuses (bot_data w))\<rparr> \<and>
          (f = (\<lambda>k xs. xs) \<or> (\<exists>st. f = (\<lambda>k. AList.update k st)))"
  proof (cases "action = ''approve''")
    case True
    with p show ?thesis
      by (intro exI [of _ "\<lambda>k. AList.update k Approved"])
         (auto simp add: approval_try_def must_def returns_def api_def Let_def attempt_def)
  next
    case False
    show ?thesis
    proof (cases "action = ''reject''")
      case True
      with p show ?thesis
        by (intro exI [of _ "\<lambda>k. AList.update k Rejected"])
           (auto simp add: approval_try_def must_def returns_def api_def Let_def attempt_def)
    next
      case False
      with \<open>action \<noteq> ''approve''\<close> p show ?thesis
        by (intro exI [of _ "\<lambda>k xs. xs"])
           (auto simp add: approval_try_def must_def returns_def api_def Let_def attempt_def)
    qed
  qed
  then show ?thesis
    using assms ne by (auto simp add: status_of_def delete_conv' update_conv')
qed

lemma keeps_user_approval_handler: "keeps i (user_approval_handler cfg e u)"
  unfolding keeps_def
proof (intro allI impI)
  fix w :: world assume a: "map_of (pending_reviews (bot_data w)) i = None"
  have a': "map_of (pending_reviews (bot_data (snd (api e c w)))) i = None" for c
    using a by simp
  have s: "status_of (snd (api e c w)) i = status_of w i" for c
    by (simp add: status_of_def)
  show "map_of (pending_reviews (bot_data (snd (user_approval_handler cfg e u w)))) i = None \<and>
        status_of (snd (user_approval_handler cfg e u w)) i = status_of w i"
  proof (cases "callback_data u")
    case None
    with a show ?thesis by (simp add: user_approval_handler_def with_query_def)
  next
    case (Some d)
    show ?thesis
    proof (cases "uid (user u) \<in> set (admin_ids cfg) \<and> delivers e (length (outbox w)) (AnswerCallbackQuery None)")
      case False
      with Some a show ?thesis
        by (auto simp add: user_approval_handler_def with_query_def must_def returns_def
              api_def Let_def status_of_def)
    next
      case True
      let ?w1 = "snd (api e (AnswerCallbackQuery None) w)"
      obtain r w2 where t: "approval_try cfg e u d ?w1 = (r, w2)"
        by (cases "approval_try cfg e u d ?w1") auto
      from approval_try_keeps [OF a' [of "AnswerCallbackQuery None"], of cfg e u d] t s [of "AnswerCallbackQuery None"]
      have k: "map_of (pending_reviews (bot_data w2)) i = None" "status_of w2 i = status_of w i"
        by simp_all
      have "bot_data (snd (user_approval_handler cfg e u w)) = bot_data w2"
        using Some True t
        by (cases r) (simp_all add: user_approval_handler_def with_query_def must_def returns_def
              api_def Let_def)
      with k show ?thesis by (simp add: status_of_def)
    qed
  qed
qed

lemma keeps_receive_screenshot:
  assumes "uid (user u) \<noteq> i \<or> photo (msg u) = []"
  shows "keeps i (receive_screenshot cfg e u)"
  unfolding keeps_def
proof (intro allI impI)
  fix w :: world assume a: "map_of (pending_reviews (bot_data w)) i = None"
  show "map_of (pending_reviews (bot_data (snd (receive_screenshot cfg e u w)))) i = None \<and>
        status_of (snd (receive_screenshot cfg e u w)) i = status_of w i"
  proof (cases "photo (msg u) = []")
    case True
    with a show ?thesis
      by (simp add: receive_screenshot_def must_def returns_def api_def Let_def status_of_def)
  next
    case False
    with assms have ne: "uid (user u) \<noteq> i" by simp
    from False a ne show ?thesis
      by (simp add: receive_screenshot_def must_def returns_def api_def Let_def status_of_def
            update_conv')
  qed
qed

section \<open>What an update does to the bot data\<close>

lemma find_handler_cases: "find_handler u hs = Some cb \<Longrightarrow> \<exists>p. (p, cb) \<in> set hs \<and> p u"
  by (induction hs) (auto simp add: find_handler_def split: if_splits)

lemma conv_check_cases:
  assumes "conv_check c st u = Some cb"
  shows "\<exists>p. p u \<and> ((p, cb) \<in> set (entry_points c) \<or> (\<exists>s. st = Some s \<and> (p, cb) \<in> set (states c s)) \<or>
                       (p, cb) \<in> set (fallbacks c))"
  using assms
  by (auto simp add: conv_check_def split: option.splits dest!: find_handler_cases)

lemma registration_registered:
  assumes "conv_check (registration_conv_handler cfg e u)
             (registration_conv w (chat u, uid (user u))) u = Some cb"
  shows "cb \<in> registered cfg e u w"
  using conv_check_cases [OF assms]
  by (auto simp add: registration_conv_handler_def registered_def split: if_splits)

lemma ask_comment_registered:
  assumes "conv_check (ask_comment_conv_handler cfg e u) st u = Some cb"
  shows "cb \<in> registered cfg e u w"
  using conv_check_cases [OF assms]
  by (auto simp add: ask_comment_conv_handler_def registered_def split: if_splits)

lemma reply_comment_registered:
  assumes "conv_check (reply_comment_conv_handler cfg e u) st u = Some cb"
  shows "cb \<in> registered cfg e u w"
  using conv_check_cases [OF assms]
  by (auto simp add: reply_comment_conv_handler_def registered_def split: if_splits)

lemma announcement_registered:
  assumes "conv_check (announcement_conv_handler cfg e u) st u = Some cb"
  shows "cb \<in> registered cfg e u w"
  using conv_check_cases [OF assms]
  by (auto simp add: announcement_conv_handler_def registered_def split: if_splits)

lemma run_callback_bot_data [simp]: "bot_data (run_callback cfg e cb w) = bot_data (snd (cb w))"
  by (simp add: run_callback_def split: prod.splits sum.splits)

lemma conv_run_bot_data:
  assumes "\<And>f w. bot_data (table_update f w) = bot_data w"
  shows "bot_data (conv_run cfg e table_update key cb w) = bot_data (snd (cb w))"
  by (simp add: conv_run_def assms split: prod.splits sum.splits result.splits)

text \<open>What an update does to the bot data is what one registered callback does to them.\<close>

lemma process_update_bot_data:
  "bot_data (process_update cfg e u w) = bot_data w \<or>
   (\<exists>cb \<in> registered cfg e u w. bot_data (process_update cfg e u w) = bot_data (snd (cb w)))"
proof -
  define Q where "Q = (\<lambda>x :: world. bot_data x = bot_data w \<or>
                            (\<exists>cb \<in> registered cfg e u w. bot_data x = bot_data (snd (cb w))))"
  have rc: "Q (run_callback cfg e cb w)" if "cb \<in> registered cfg e u w" for cb
    unfolding Q_def using that by auto
  have cr: "Q (conv_run cfg e table_update key cb w)"
    if "cb \<in> registered cfg e u w" and "\<And>f w. bot_data (table_update f w) = bot_data w"
    for table_update key cb
    unfolding Q_def using that(1) conv_run_bot_data [of table_update, OF that(2)] by auto
  have same: "Q w" unfolding Q_def by simp
  have "Q (process_update cfg e u w)"
    unfolding process_update_def Let_def
    apply (split if_split; intro conjI impI)
     apply (rule rc, simp add: registered_def)
    apply (split if_split; intro conjI impI)
     apply (rule rc, simp add: registered_def)
    apply (split if_split; intro conjI impI)
     apply (rule rc, simp add: registered_def)
    apply (split if_split; intro conjI impI)
     apply (rule rc, simp add: registered_def)
    apply (split if_split; intro conjI impI)
     apply (rule rc, simp add: registered_def)
    apply (split option.split; intro conjI impI allI)
     prefer 2
     apply (rule cr, erule registration_registered, simp)
    apply (split option.split; intro conjI impI allI)
     prefer 2
     apply (rule cr, erule ask_comment_registered, simp)
    apply (split option.split; intro conjI impI allI)
     prefer 2
     apply (rule cr, erule reply_comment_registered, simp)
    apply (split option.split; intro conjI impI allI)
     prefer 2
     apply (rule cr, erule announcement_registered, simp)
    apply (split if_split; intro conjI impI)
     apply (rule rc, simp add: registered_def)
    apply (split if_split; intro conjI impI)
     apply (rule rc, simp add: registered_def)
    apply (split if_split; intro conjI impI)
     apply (rule rc, simp add: registered_def)
    apply (split if_split; intro conjI impI)
     apply (rule rc, simp add: registered_def)
    apply (rule same)
    done
  then show ?thesis by (simp add: Q_def)
qed

lemmas quiet_all = quiet_start quiet_handle_get_started_callback quiet_ask_question_start
  quiet_announcement_start
  quiet_get_full_name quiet_get_semester quiet_get_stream quiet_get_gender
  quiet_get_payment_method quiet_cancel_registration_callback quiet_cancel_announcement_callback
  quiet_cancel_question_callback quiet_cancel_reply_callback quiet_receive_comment
  quiet_reply_to_comment_start quiet_send_reply_to_user quiet_announcement_semester_cb
  quiet_announcement_content quiet_cancel quiet_handle_new_chat_members

lemma registered_cases:
  assumes "cb \<in> registered cfg e u w"
  shows "quiet cb \<or> cb = user_approval_handler cfg e u \<or> cb = handle_menu_buttons cfg e u \<or>
         (cb = receive_screenshot cfg e u \<and> filters_PHOTO u \<and>
          registration_conv w (chat u, uid (user u)) = Some AWAITING_SCREENSHOT)"
  using assms by (auto simp add: registered_def quiet_all split: if_splits)

lemma registered_keeps:
  assumes "cb \<in> registered cfg e u w" and "\<not> submission w i u"
  shows "keeps i cb"
  using registered_cases [OF assms(1)] assms(2)
  by (auto simp add: quiet_keeps keeps_user_approval_handler keeps_handle_menu_buttons
        submission_def intro!: keeps_receive_screenshot)

lemma process_update_keeps:
  assumes "map_of (pending_reviews (bot_data w)) i = None" and "\<not> submission w i u"
  shows "map_of (pending_reviews (bot_data (process_update cfg e u w))) i = None \<and>
         status_of (process_update cfg e u w) i = status_of w i"
  using process_update_bot_data [of cfg e u w] assms registered_keeps [of _ cfg e u w i]
  by (auto simp add: status_of_def keeps_def)

lemma run_keeps:
  assumes "map_of (pending_reviews (bot_data w)) i = None" and "\<not> resubmits cfg e i us w"
  shows "map_of (pending_reviews (bot_data (run cfg e us w))) i = None \<and>
         status_of (run cfg e us w) i = status_of w i"
  using assms
proof (induction us arbitrary: w)
  case Nil
  then show ?case by (simp add: run_def)
next
  case (Cons u us)
  from Cons.prems(2) have n: "\<not> submission w i u"
    and r: "\<not> resubmits cfg e i us (process_update cfg e u w)" by simp_all
  from process_update_keeps [OF Cons.prems(1) n, of cfg e]
  have 1: "map_of (pending_reviews (bot_data (process_update cfg e u w))) i = None"
    and 2: "status_of (process_update cfg e u w) i = status_of w i" by simp_all
  from Cons.IH [OF 1 r] 2 show ?case by (simp add: run_def)
qed

text \<open>A submission is what the application hands to \<^verbatim>\<open>receive_screenshot\<close>.\<close>

lemma submission_runs_receive_screenshot:
  assumes "submission w i u"
  shows "process_update cfg e u w =
           conv_run cfg e registration_conv_update (chat u, uid (user u))
             (receive_screenshot cfg e u) w"
proof -
  from assms have c: "callback_data u = None" and ph: "photo (msg u) \<noteq> []"
    and st: "registration_conv w (chat u, uid (user u)) = Some AWAITING_SCREENSHOT"
    by (auto simp add: submission_def filters_PHOTO_def)
  have cc: "conv_check (registration_conv_handler cfg e u) (Some AWAITING_SCREENSHOT) u
              = Some (receive_screenshot cfg e u)"
    by (simp add: conv_check_def find_handler_def registration_conv_handler_def
          filters_PHOTO_def c ph)
  show ?thesis
    unfolding process_update_def Let_def
    by (simp add: pattern_prefix_def pattern_exact_def c st cc)
qed

text \<open>
  C9, as the claim states it. User 7 is pending; admin 1 clears the review queue and
  then presses "approve" for user 7, but the answer to the button press cannot be
  delivered: the callback raises before it looks at the queue, and "already processed"
  is not reported.
\<close>

theorem unanswered_approval_after_clear_reports_nothing:
  "status_of world_pending 7 = Some Pending \<and>
   pending_reviews (bot_data
     (snd (clear_pending_requests env_no_answer (text_message 1 ''Clear Pending'') world_pending))) = [] \<and>
   calls_since
     (snd (clear_pending_requests env_no_answer (text_message 1 ''Clear Pending'') world_pending))
     (snd (user_approval_handler cfg0 env_no_answer (button_press 1 ''approve_7'')
        (snd (clear_pending_requests env_no_answer (text_message 1 ''Clear Pending'') world_pending))))
     = [AnswerCallbackQuery None] \<and>
   already_processed_calls env_no_answer (button_press 1 ''approve_7'')
     (snd (clear_pending_requests env_no_answer (text_message 1 ''Clear Pending'') world_pending))
     = [AnswerCallbackQuery None,
        EditMessageText 1 1 (Plain ''Request already processed or not found.'') NoMarkup]"
  by code_simp

text \<open>
  C9, amended. "Clear Pending" empties the review queue and leaves every status and every
  record as it was. From then on, in every run in which no update is a submission of
  user \<open>i\<close>, \<open>i\<close> keeps the status and has no entry, and an approve or reject action
  of an admin on \<open>i\<close> changes nothing: when its button press is answered it reports
  "already processed", and otherwise its only call is the answer that failed.
\<close>

theorem clear_pending_strands_pending_users:
  "(let w1 = snd (clear_pending_requests e u w) in
     pending_reviews (bot_data w1) = [] \<and>
     user_statuses (bot_data w1) = user_statuses (bot_data w) \<and>
     user_data (bot_data w1) = user_data (bot_data w) \<and>
     (\<forall>i e' us.
        \<not> resubmits cfg e' i us w1 \<longrightarrow>
        (let w2 = run cfg e' us w1 in
           status_of w2 i = status_of w i \<and>
           map_of (pending_reviews (bot_data w2)) i = None \<and>
           (\<forall>u' d action s.
              uid (user u') \<in> set (admin_ids cfg) \<and> callback_data u' = Some d \<and>
              split_on CHR ''_'' d = [action, s] \<and> py_int s = Some i \<longrightarrow>
              bot_data (snd (user_approval_handler cfg e' u' w2)) = bot_data w2 \<and>
              calls_since w2 (snd (user_approval_handler cfg e' u' w2)) =
                (if delivers e' (length (outbox w2)) (AnswerCallbackQuery None)
                 then already_processed_calls e' u' w2 else [AnswerCallbackQuery None])))))"
proof -
  let ?w1 = "snd (clear_pending_requests e u w)"
  have b: "bot_data ?w1 = (bot_data w)\<lparr>pending_reviews := []\<rparr>"
    by (simp add: clear_pending_requests_def must_def returns_def api_def Let_def)
  have none: "map_of (pending_reviews (bot_data ?w1)) i = None" for i
    by (simp add: b)
  have st: "status_of ?w1 i = status_of w i" for i
    by (simp add: b status_of_def)
  have later: "status_of (run cfg e' us ?w1) i = status_of w i \<and>
      map_of (pending_reviews (bot_data (run cfg e' us ?w1))) i = None \<and>
      (\<forall>u' d action s.
              uid (user u') \<in> set (admin_ids cfg) \<and> callback_data u' = Some d \<and>
              split_on CHR ''_'' d = [action, s] \<and> py_int s = Some i \<longrightarrow>
              bot_data (snd (user_approval_handler cfg e' u' (run cfg e' us ?w1))) =
                bot_data (run cfg e' us ?w1) \<and>
              calls_since (run cfg e' us ?w1) (snd (user_approval_handler cfg e' u' (run cfg e' us ?w1))) =
                (if delivers e' (length (outbox (run cfg e' us ?w1))) (AnswerCallbackQuery None)
                 then already_processed_calls e' u' (run cfg e' us ?w1)
                 else [AnswerCallbackQuery None]))"
    if "\<not> resubmits cfg e' i us ?w1" for i e' us
  proof -
    let ?w2 = "run cfg e' us ?w1"
    from run_keeps [OF none that] st
    have k: "map_of (pending_reviews (bot_data ?w2)) i = None"
      "status_of ?w2 i = status_of w i" by simp_all
    have "bot_data (snd (user_approval_handler cfg e' u' ?w2)) = bot_data ?w2 \<and>
          calls_since ?w2 (snd (user_approval_handler cfg e' u' ?w2)) =
            (if delivers e' (length (outbox ?w2)) (AnswerCallbackQuery None)
             then already_processed_calls e' u' ?w2 else [AnswerCallbackQuery None])"
      if h: "uid (user u') \<in> set (admin_ids cfg)" "callback_data u' = Some d"
        "split_on CHR ''_'' d = [action, s]" "py_int s = Some i"
      for u' d action s
    proof (cases "delivers e' (length (outbox ?w2)) (AnswerCallbackQuery None)")
      case True
      with approval_absent [OF h True k(1)] show ?thesis by simp
    next
      case False
      with approval_unanswered [OF h(1,2) False] show ?thesis by simp
    qed
    with k show ?thesis by blast
  qed
  show ?thesis
    unfolding Let_def using later by (simp add: b)
qed

theorem clear_pending_strands_pending_users_witness:
  "status_of world_pending 7 = Some Pending \<and>
   \<not> resubmits cfg0 env_ok 7 [photo_message 7, button_press 1 ''approve_7'']
       (snd (clear_pending_requests env_ok (text_message 1 ''Clear Pending'') world_pending)) \<and>
   uid (user (button_press 1 ''approve_7'')) \<in> set (admin_ids cfg0) \<and>
   split_on CHR ''_'' ''approve_7'' = [''approve'', ''7''] \<and> py_int ''7'' = Some 7 \<and>
   pending_reviews (bot_data (snd (clear_pending_requests env_ok (text_message 1 ''Clear Pending'') world_pending))) = [] \<and>
   status_of (run cfg0 env_ok [photo_message 7, button_press 1 ''approve_7'']
                (snd (clear_pending_requests env_ok (text_message 1 ''Clear Pending'') world_pending))) 7
     = Some Pending \<and>
   bot_data (snd (user_approval_handler cfg0 env_ok (button_press 1 ''approve_7'')
       (run cfg0 env_ok [photo_message 7, button_press 1 ''approve_7'']
          (snd (clear_pending_requests env_ok (text_message 1 ''Clear Pending'') world_pending)))))
     = bot_data (run cfg0 env_ok [photo_message 7, button_press 1 ''approve_7'']
          (snd (clear_pending_requests env_ok (text_message 1 ''Clear Pending'') world_pending)))"
proof -
  let ?w1 = "snd (clear_pending_requests env_ok (text_message 1 ''Clear Pending'') world_pending)"
  let ?us = "[photo_message 7, button_press 1 ''approve_7'']"
  let ?u' = "button_press 1 ''approve_7''"
  have s: "status_of world_pending 7 = Some Pending" by code_simp
  have r: "\<not> resubmits cfg0 env_ok 7 ?us ?w1" by code_simp
  have h1: "uid (user ?u') \<in> set (admin_ids cfg0)" by code_simp
  have h2: "callback_data ?u' = Some ''approve_7''" by code_simp
  have h3: "split_on CHR ''_'' ''approve_7'' = [''approve'', ''7'']" by code_simp
  have h4: "py_int ''7'' = Some 7" by code_simp
  note T = clear_pending_strands_pending_users
    [of env_ok "text_message 1 ''Clear Pending''" world_pending cfg0, unfolded Let_def]
  from T have e: "pending_reviews (bot_data ?w1) = []" by blast
  from T r have k: "status_of (run cfg0 env_ok ?us ?w1) 7 = status_of world_pending 7" by blast
  from T r h1 h2 h3 h4
  have a: "bot_data (snd (user_approval_handler cfg0 env_ok ?u' (run cfg0 env_ok ?us ?w1)))
             = bot_data (run cfg0 env_ok ?us ?w1)" by blast
  from s r h1 h3 h4 e k a show ?thesis by simp
qed

section \<open>Changes of status\<close>

lemma quiet_effect: "quiet cb \<Longrightarrow> step_effect (bot_data w) (bot_data (snd (cb w)))"
  by (simp add: quiet_def step_effect_def)

lemma approval_try_effect: "step_effect (bot_data w) (bot_data (snd (approval_try cfg e u d w)))"
proof (cases "\<exists>action s j. split_on CHR ''_'' d = [action, s] \<and> py_int s = Some j \<and>
                map_of (pending_reviews (bot_data w)) j \<noteq> None")
  case False
  then have "bot_data (snd (approval_try cfg e u d w)) = bot_data w"
    by (auto simp add: approval_try_def must_def returns_def api_def Let_def
          split: list.splits option.splits)
  then show ?thesis by (simp add: step_effect_def)
next
  case True
  then obtain action s j entry where p: "split_on CHR ''_'' d = [action, s]" "py_int s = Some j"
    "map_of (pending_reviews (bot_data w)) j = Some entry" by auto
  let ?b' = "bot_data (snd (approval_try cfg e u d w))"
  have "pending_reviews ?b' = AList.delete j (pending_reviews (bot_data w)) \<and>
        (user_statuses ?b' = user_statuses (bot_data w) \<or>
         user_statuses ?b' = AList.update j Approved (user_statuses (bot_data w)) \<or>
         user_statuses ?b' = AList.update j Rejected (user_statuses (bot_data w)))"
    using p
    by (cases "action = ''approve''"; cases "action = ''reject''")
       (simp_all add: approval_try_def must_def returns_def api_def Let_def attempt_def)
  with p(3) show ?thesis unfolding step_effect_def by blast
qed

lemma user_approval_handler_effect:
  "step_effect (bot_data w) (bot_data (snd (user_approval_handler cfg e u w)))"
proof (cases "callback_data u")
  case None
  then show ?thesis by (simp add: user_approval_handler_def with_query_def step_effect_def)
next
  case (Some d)
  show ?thesis
  proof (cases "uid (user u) \<in> set (admin_ids cfg) \<and> delivers e (length (outbox w)) (AnswerCallbackQuery None)")
    case False
    with Some show ?thesis
      by (auto simp add: user_approval_handler_def with_query_def must_def returns_def
            api_def Let_def step_effect_def)
  next
    case True
    let ?w1 = "snd (api e (AnswerCallbackQuery None) w)"
    obtain r w2 where t: "approval_try cfg e u d ?w1 = (r, w2)"
      by (cases "approval_try cfg e u d ?w1") auto
    have "bot_data (snd (user_approval_handler cfg e u w)) = bot_data w2"
      using Some True t
      by (cases r) (simp_all add: user_approval_handler_def with_query_def must_def returns_def
            api_def Let_def)
    moreover from approval_try_effect [of ?w1 cfg e u d] t
    have "step_effect (bot_data w) (bot_data w2)" by simp
    ultimately show ?thesis by simp
  qed
qed

lemma clear_pending_requests_effect:
  "step_effect (bot_data w) (bot_data (snd (clear_pending_requests e u w)))"
  by (simp add: clear_pending_requests_def must_def returns_def api_def Let_def step_effect_def)

lemma handle_menu_buttons_effect:
  "step_effect (bot_data w) (bot_data (snd (handle_menu_buttons cfg e u w)))"
proof -
  have k: "step_effect (bot_data w) (bot_data (snd (must e c (returns NoValue) w)))" for c
    by (simp add: must_def returns_def api_def Let_def step_effect_def)
  have r: "step_effect (bot_data w) (bot_data (snd (returns NoValue w)))"
    by (simp add: returns_def step_effect_def)
  note q = quiet_effect [OF quiet_ask_question_start] quiet_effect [OF quiet_announcement_start]
    quiet_effect [OF quiet_show_help_support] quiet_effect [OF quiet_view_stats]
    quiet_effect [OF quiet_view_pending_questions]
  show ?thesis
    using q [of w] clear_pending_requests_effect [of w] k r
    by (simp add: handle_menu_buttons_def Let_def)
qed

lemma receive_screenshot_effect:
  "step_effect (bot_data w) (bot_data (snd (receive_screenshot cfg e u w)))"
proof (cases "photo (msg u) = []")
  case True
  then show ?thesis
    by (simp add: receive_screenshot_def must_def returns_def api_def Let_def step_effect_def)
next
  case False
  then have "\<exists>p. user_statuses (bot_data (snd (receive_screenshot cfg e u w))) =
                AList.update (uid (user u)) Pending (user_statuses (bot_data w)) \<and>
             pending_reviews (bot_data (snd (receive_screenshot cfg e u w))) =
                AList.update (uid (user u)) p (pending_reviews (bot_data w))"
    by (simp add: receive_screenshot_def must_def returns_def api_def Let_def) blast
  then show ?thesis unfolding step_effect_def by blast
qed

lemma registered_effect:
  assumes "cb \<in> registered cfg e u w'"
  shows "step_effect (bot_data w) (bot_data (snd (cb w)))"
  using registered_cases [OF assms]
  by (auto simp add: quiet_effect user_approval_handler_effect handle_menu_buttons_effect
        receive_screenshot_effect)

lemma process_update_effect:
  "step_effect (bot_data w) (bot_data (process_update cfg e u w))"
proof -
  have "step_effect (bot_data w) (bot_data w)" by (simp add: step_effect_def)
  with process_update_bot_data [of cfg e u w] registered_effect [of _ cfg e u w w]
  show ?thesis by auto
qed

lemma step_effect_well_formed:
  assumes "step_effect b b'" and "well_formed b"
  shows "well_formed b'"
proof -
  from assms(2) have ds: "distinct (map fst (user_statuses b))"
    and dr: "distinct (map fst (pending_reviews b))"
    and c: "\<And>i. i \<in> fst ` set (pending_reviews b) \<Longrightarrow> map_of (user_statuses b) i = Some Pending"
    unfolding well_formed_def by blast+
  from assms(1) consider
      (same) "user_statuses b' = user_statuses b" "pending_reviews b' = pending_reviews b"
    | (clear) "user_statuses b' = user_statuses b" "pending_reviews b' = []"
    | (pop) j entry where "map_of (pending_reviews b) j = Some entry"
        "pending_reviews b' = AList.delete j (pending_reviews b)"
        "user_statuses b' = user_statuses b \<or>
         user_statuses b' = AList.update j Approved (user_statuses b) \<or>
         user_statuses b' = AList.update j Rejected (user_statuses b)"
    | (submit) i p where "user_statuses b' = AList.update i Pending (user_statuses b)"
        "pending_reviews b' = AList.update i p (pending_reviews b)"
    unfolding step_effect_def by blast
  then show ?thesis
  proof cases
    case same
    with assms(2) show ?thesis by (simp add: well_formed_def del: map_of_eq_Some_iff)
  next
    case clear
    with ds show ?thesis by (simp add: well_formed_def)
  next
    case pop
    have k: "i \<in> fst ` set (AList.delete j (pending_reviews b)) \<Longrightarrow>
             i \<noteq> j \<and> i \<in> fst ` set (pending_reviews b)" for i
      using delete_notin_dom [of j "pending_reviews b"] dom_delete_subset [of j "pending_reviews b"]
      by auto
    from pop(3) ds have "distinct (map fst (user_statuses b'))"
      by (auto simp add: distinct_update)
    moreover from pop(2) dr have "distinct (map fst (pending_reviews b'))"
      by (simp add: distinct_delete)
    moreover have "map_of (user_statuses b') i = Some Pending"
      if "i \<in> fst ` set (pending_reviews b')" for i
      using k [of i] that pop(2,3) c [of i] by (auto simp add: update_conv')
    ultimately show ?thesis by (simp add: well_formed_def del: map_of_eq_Some_iff)
  next
    case submit
    from submit(1) ds have "distinct (map fst (user_statuses b'))"
      by (simp add: distinct_update)
    moreover from submit(2) dr have "distinct (map fst (pending_reviews b'))"
      by (simp add: distinct_update)
    moreover have "map_of (user_statuses b') k = Some Pending"
      if "k \<in> fst ` set (pending_reviews b')" for k
      using that submit c [of k] by (auto simp add: update_conv' dom_update)
    ultimately show ?thesis by (simp add: well_formed_def del: map_of_eq_Some_iff)
  qed
qed

lemma step_effect_edge:
  assumes "step_effect b b'" and "well_formed b"
  shows "edge (map_of (user_statuses b) i) (map_of (user_statuses b') i)"
proof -
  from assms(2) have c: "\<And>i. i \<in> fst ` set (pending_reviews b) \<Longrightarrow> map_of (user_statuses b) i = Some Pending"
    unfolding well_formed_def by blast
  have p: "map_of (user_statuses b) j = Some Pending" if "map_of (pending_reviews b) j = Some entry"
    for j entry
    using that c [of j] by (metis domI dom_map_of_conv_image_fst)
  from assms(1) consider
      (same) "user_statuses b' = user_statuses b"
    | (pop) j entry where "map_of (pending_reviews b) j = Some entry"
        "user_statuses b' = AList.update j Approved (user_statuses b) \<or>
         user_statuses b' = AList.update j Rejected (user_statuses b)"
    | (submit) k where "user_statuses b' = AList.update k Pending (user_statuses b)"
    unfolding step_effect_def by blast
  then show ?thesis
  proof cases
    case same
    then show ?thesis by (simp add: edge_def)
  next
    case pop
    from p [OF pop(1)] pop(2) show ?thesis
      by (cases "i = j") (auto simp add: edge_def update_conv')
  next
    case submit
    then show ?thesis
      by (cases "i = k") (simp_all add: edge_def update_conv')
  qed
qed

lemma well_formed_initial: "well_formed (bot_data initial_world)"
  by (simp add: well_formed_def initial_world_def)

lemma well_formed_run:
  assumes "well_formed (bot_data w)"
  shows "well_formed (bot_data (run cfg e us w))"
  using assms
proof (induction us arbitrary: w)
  case Nil
  then show ?case by (simp add: run_def)
next
  case (Cons u us)
  from step_effect_well_formed [OF process_update_effect Cons.prems]
  have "well_formed (bot_data (process_update cfg e u w))" .
  from Cons.IH [OF this] show ?case by (simp add: run_def)
qed

text \<open>
  In every run from the start, an update changes the status of a user only to pending,
  or from pending to approved or rejected.
\<close>

lemma status_changes_in_runs:
  "edge (status_of (run cfg e us initial_world) i)
        (status_of (process_update cfg e u (run cfg e us initial_world)) i)"
  unfolding status_of_def
  by (rule step_effect_edge [OF process_update_effect well_formed_run [OF well_formed_initial]])

text \<open>In every run from the start the keys of the status table occur once.\<close>

lemma statuses_distinct_in_runs:
  "distinct (map fst (user_statuses (bot_data (run cfg e us initial_world))))"
  using well_formed_run [OF well_formed_initial, of cfg e us] by (simp add: well_formed_def)


section \<open>Runs of the application\<close>

text \<open>
  C7. The button labelled "Health Science" that \<^verbatim>\<open>get_semester\<close> offers for the
  second semester carries the data \<^verbatim>\<open>stream_Health\<close>; a registration that presses
  it ends with the stream "Health" in the user's record and in the review queue, not
  "Health Science".
\<close>

theorem health_science_stored_as_health:
  "stream_keyboard ''Second Semester'' ! 3 = [CallbackButton ''Health Science'' ''stream_Health''] \<and>
   Option.bind (map_of (user_data (bot_data (run cfg0 env_ok (registration ''stream_Health'') initial_world))) 7) stream
     = Some ''Health'' \<and>
   map_option (\<lambda>p. stream (info p))
     (map_of (pending_reviews (bot_data (run cfg0 env_ok (registration ''stream_Health'') initial_world))) 7)
     = Some (Some ''Health'')"
  by code_simp

text \<open>
  The handler that \<^verbatim>\<open>main()\<close> registers for the cancel button of the registration
  touches neither the table of the conversation nor the bot data.
\<close>

lemma cancel_registration_callback_tables:
  "registration_conv (snd (cancel_registration_callback e u w)) = registration_conv w"
  "bot_data (snd (cancel_registration_callback e u w)) = bot_data w"
  by (simp_all add: cancel_registration_callback_def with_query_def must_def api_def Let_def
        split: option.splits)

lemma run_callback_registration_conv:
  "registration_conv (run_callback cfg e cb w) = registration_conv (snd (cb w))"
  by (simp add: run_callback_def split: prod.splits sum.splits)

text \<open>
  C8. A press of the cancel button of the registration is taken by the handler that
  \<^verbatim>\<open>main()\<close> registers for it ahead of the conversation, in every world and whatever
  the calls do: the table of the conversation and the bot data are as before, so a
  registration that was under way stays in its state. In the run shown, the press
  comes after the name was given: the session is cleared and the conversation is still
  in \<open>GET_SEMESTER\<close>. The command \<^verbatim>\<open>/cancel\<close> in the same place reaches the fallback
  of the conversation and ends it.
\<close>

theorem cancel_button_leaves_conversation_open:
  "registration_conv (process_update cfg e (button_press i ''cancel_registration'') w)
     = registration_conv w \<and>
   bot_data (process_update cfg e (button_press i ''cancel_registration'') w) = bot_data w \<and>
   registration_conv
     (run cfg0 env_ok [button_press 7 ''get_started'', text_message 7 ''Abebe B''] initial_world) (7, 7)
     = Some GET_SEMESTER \<and>
   registration_conv
     (run cfg0 env_ok [button_press 7 ''get_started'', text_message 7 ''Abebe B'',
                       button_press 7 ''cancel_registration''] initial_world) (7, 7)
     = Some GET_SEMESTER \<and>
   sessions
     (run cfg0 env_ok [button_press 7 ''get_started'', text_message 7 ''Abebe B'',
                       button_press 7 ''cancel_registration''] initial_world) 7
     = empty_session \<and>
   registration_conv
     (run cfg0 env_ok [button_press 7 ''get_started'', text_message 7 ''Abebe B'',
                       command_message 7 ''cancel''] initial_world) (7, 7)
     = None"
proof -
  let ?u = "button_press i ''cancel_registration''"
  have p: "process_update cfg e ?u w = run_callback cfg e (cancel_registration_callback e ?u) w"
    by (simp add: process_update_def pattern_prefix_def pattern_exact_def button_press_def)
  have 1: "registration_conv (process_update cfg e ?u w) = registration_conv w"
    by (simp add: p run_callback_registration_conv cancel_registration_callback_tables)
  have 2: "bot_data (process_update cfg e ?u w) = bot_data w"
    by (simp add: p cancel_registration_callback_tables)
  have 3: "registration_conv
     (run cfg0 env_ok [button_press 7 ''get_started'', text_message 7 ''Abebe B''] initial_world) (7, 7)
     = Some GET_SEMESTER"
    by code_simp
  have 4: "registration_conv
     (run cfg0 env_ok [button_press 7 ''get_started'', text_message 7 ''Abebe B'',
                       button_press 7 ''cancel_registration''] initial_world) (7, 7)
     = Some GET_SEMESTER"
    by code_simp
  have 5: "sessions
     (run cfg0 env_ok [button_press 7 ''get_started'', text_message 7 ''Abebe B'',
                       button_press 7 ''cancel_registration''] initial_world) 7
     = empty_session"
    by code_simp
  have 6: "registration_conv
     (run cfg0 env_ok [button_press 7 ''get_started'', text_message 7 ''Abebe B'',
                       command_message 7 ''cancel''] initial_world) (7, 7)
     = None"
    by code_simp
  from 1 2 3 4 5 6 show ?thesis by blast
qed

text \<open>
  C3. A user without any status sends "Ask Question": the entry point of the question
  conversation takes the message before the menu handler (which checks the status) can
  see it, the conversation is in \<open>ASK_COMMENT\<close>, and the next text of the user is stored
  as a pending comment, while the user is still not approved.
\<close>

theorem unapproved_user_asks_question:
  "status_of initial_world 7 = None \<and>
   ask_comment_conv (run cfg0 env_ok [text_message 7 ''Ask Question''] initial_world) (7, 7)
     = Some ASK_COMMENT \<and>
   map_of (pending_comments (bot_data
       (run cfg0 env_ok [text_message 7 ''Ask Question'', text_message 7 ''Why?''] initial_world)))
     ''comment_7_1''
     = Some \<lparr>asker_id = 7, asker_name = Some ''Abebe'', asker_username = None,
             asker_semester = Some ''N/A'', comment = Some ''Why?'', asked_at = 0\<rparr> \<and>
   status_of (run cfg0 env_ok [text_message 7 ''Ask Question'', text_message 7 ''Why?''] initial_world) 7
     = None"
  by code_simp

text \<open>
  C2. User 7 registers and sends the screenshot; the confirmation to the user cannot be
  delivered, so \<^verbatim>\<open>receive_screenshot\<close> raises before it returns and the conversation
  stays in \<open>AWAITING_SCREENSHOT\<close>. An admin approves. The next photo of the user runs
  \<^verbatim>\<open>receive_screenshot\<close> again: the status goes from approved to pending.
\<close>

theorem approved_user_becomes_pending:
  "status_of (run cfg0 env_no_thanks (registration ''stream_Health'' @ [button_press 1 ''approve_7'']) initial_world) 7
     = Some Approved \<and>
   registration_conv
     (run cfg0 env_no_thanks (registration ''stream_Health'' @ [button_press 1 ''approve_7'']) initial_world) (7, 7)
     = Some AWAITING_SCREENSHOT \<and>
   status_of (run cfg0 env_no_thanks
       (registration ''stream_Health'' @ [button_press 1 ''approve_7'', photo_message 7]) initial_world) 7
     = Some Pending"
  by code_simp

text \<open>
  The conversations are kept per chat and user, so a delivery failure is not needed: a
  registration left open in a second chat takes a photo of the approved user as a
  screenshot in the same way.
\<close>

lemma second_chat_resubmission:
  "status_of (run cfg0 env_ok two_chats initial_world) 7 = Some Approved \<and>
   status_of (run cfg0 env_ok (two_chats @ [in_chat 99 (photo_message 7)]) initial_world) 7
     = Some Pending"
  by code_simp

end
